theory Spec2Isabelle
  imports Complex_Main
begin

section \<open>WatCon: dynamic water networks (generate\_dynamic\_networks.py)\<close>

text \<open>
  A shallow embedding of the class \<open>WaterNetwork\<close>. Python floats are read as real
  numbers (a NaN or an infinite distance is the value \<open>None\<close> of an option), Python
  integers as \<open>int\<close>, positions in a list as \<open>nat\<close>. Every exception the source can
  raise is a value \<open>Inl e\<close> of a sum type.
\<close>

subsection \<open>Exceptions\<close>

datatype py_error =
    ValueError
  | TypeError
  | IndexError
  | UnboundLocalError
  | ZeroDivisionError
  | AttributeError
  | NetworkXError
  | NetworkXPointlessConcept

text \<open>A loop whose body may raise: it stops at the first exception.\<close>

fun mapE :: "('a \<Rightarrow> py_error + 'b) \<Rightarrow> 'a list \<Rightarrow> py_error + 'b list" where
  "mapE f [] = Inr []"
| "mapE f (x # xs) =
     (case f x of
        Inl e \<Rightarrow> Inl e
      | Inr y \<Rightarrow> (case mapE f xs of Inl e \<Rightarrow> Inl e | Inr ys \<Rightarrow> Inr (y # ys)))"

subsection \<open>Coordinates and numpy\<close>

type_synonym vec3 = "real \<times> real \<times> real"

fun vsub :: "vec3 \<Rightarrow> vec3 \<Rightarrow> vec3" where
  "vsub (a, b, c) (x, y, z) = (a - x, b - y, c - z)"

fun np_dot :: "vec3 \<Rightarrow> vec3 \<Rightarrow> real" where
  "np_dot (a, b, c) (x, y, z) = a * x + b * y + c * z"

definition np_linalg_norm :: "vec3 \<Rightarrow> real" where
  "np_linalg_norm v = sqrt (np_dot v v)"

definition euclid :: "vec3 \<Rightarrow> vec3 \<Rightarrow> real" where
  "euclid p q = np_linalg_norm (vsub p q)"

text \<open>
  \<open>np.min\<close> of an array: a \<open>ValueError\<close> on an array of size zero.
\<close>

fun np_min :: "real list \<Rightarrow> py_error + real" where
  "np_min [] = Inl ValueError"
| "np_min (x # xs) = Inr (fold min xs x)"

text \<open>
  An array of points with the number of its dimensions. \<open>np.array\<close> of a list of
  coordinate triples has shape \<open>(n, 3)\<close>, but \<open>np.array([])\<close> has shape \<open>(0,)\<close>: one
  dimension. \<open>reshape(-1, 3)\<close> always gives two dimensions.
\<close>

record ndarray =
  arr_rows :: "vec3 list"
  arr_ndim :: nat

definition np_array :: "vec3 list \<Rightarrow> ndarray" where
  "np_array ps = \<lparr>arr_rows = ps, arr_ndim = (if ps = [] then 1 else 2)\<rparr>"

definition reshape_m1_3 :: "ndarray \<Rightarrow> ndarray" where
  "reshape_m1_3 a = a\<lparr>arr_ndim := 2\<rparr>"

subsection \<open>scipy.spatial.cKDTree\<close>

text \<open>
  The constructor refuses data that is not two-dimensional
  (\<open>ValueError: data must be of shape (n, m)\<close>). A query returns, for each query
  point, \<open>k\<close> slots: the indexed points closer than the upper bound, nearest first, then
  slots without a match, which carry an infinite distance (here \<open>None\<close>) and the number
  of indexed points as index. The upper bound is exclusive: a point exactly at the bound is
  not returned. Points at the same distance are put in the order of their positions, where
  the library fixes no order; the statements below do not depend on that order.
\<close>

datatype kdtree = KDTree "vec3 list"

definition cKDTree :: "ndarray \<Rightarrow> py_error + kdtree" where
  "cKDTree a = (if arr_ndim a \<noteq> 2 then Inl ValueError else Inr (KDTree (arr_rows a)))"

definition hits :: "vec3 list \<Rightarrow> vec3 \<Rightarrow> real \<Rightarrow> (real \<times> nat) list" where
  "hits pts q ub =
     sort_key fst (filter (\<lambda>(d, j). d < ub) (map (\<lambda>j. (euclid q (pts ! j), j)) [0..<length pts]))"

definition query_row :: "vec3 list \<Rightarrow> nat \<Rightarrow> real \<Rightarrow> vec3 \<Rightarrow> (real option \<times> nat) list" where
  "query_row pts k ub q =
     (let found = take k (hits pts q ub)
      in map (\<lambda>(d, j). (Some d, j)) found @ replicate (k - length found) (None, length pts))"

fun query :: "kdtree \<Rightarrow> ndarray \<Rightarrow> nat \<Rightarrow> real \<Rightarrow> py_error + (real option \<times> nat) list list" where
  "query (KDTree pts) x k ub =
     (if arr_ndim x \<noteq> 2 then Inl ValueError else Inr (map (query_row pts k ub) (arr_rows x)))"

text \<open>\<open>d <= dist_cutoff\<close> on a distance that may be infinite.\<close>

fun le_cutoff :: "real option \<Rightarrow> real \<Rightarrow> bool" where
  "le_cutoff None c = False"
| "le_cutoff (Some d) c = (d \<le> c)"

subsection \<open>The atom classes\<close>

record WaterAtom =
  wa_index :: int
  wa_coordinates :: vec3
  wa_resname :: string
  wa_name :: string
  wa_resid :: int

definition mk_WaterAtom :: "int \<Rightarrow> string \<Rightarrow> int \<Rightarrow> vec3 \<Rightarrow> WaterAtom" where
  "mk_WaterAtom index atom_name residue_number xyz =
     \<lparr>wa_index = index, wa_coordinates = xyz, wa_resname = ''WAT'', wa_name = atom_name,
      wa_resid = residue_number\<rparr>"

record WaterMolecule =
  wm_index :: int
  wm_H1 :: WaterAtom
  wm_H2 :: WaterAtom
  wm_O :: WaterAtom
  wm_resname :: string
  wm_resid :: int

definition mk_WaterMolecule ::
  "int \<Rightarrow> WaterAtom \<Rightarrow> WaterAtom \<Rightarrow> WaterAtom \<Rightarrow> int \<Rightarrow> WaterMolecule" where
  "mk_WaterMolecule index O' H1 H2 residue_number =
     \<lparr>wm_index = index, wm_H1 = H1, wm_H2 = H2, wm_O = O', wm_resname = ''WAT'',
      wm_resid = residue_number\<rparr>"

record OtherAtom =
  oa_index :: int
  oa_coordinates :: vec3
  oa_resname :: string
  oa_msa_resid :: "string option"
  oa_resid :: int
  oa_name :: string
  oa_hbonding :: bool

text \<open>An atom of the trajectory library (MDAnalysis), as far as the class reads it.\<close>

record mda_atom =
  at_index :: int
  at_position :: vec3
  at_resid :: int

text \<open>The active site is one list holding protein atoms and water molecules.\<close>

datatype site_member = Atom OtherAtom | Molecule WaterMolecule

fun member_resid :: "site_member \<Rightarrow> int" where
  "member_resid (Atom a) = oa_resid a"
| "member_resid (Molecule m) = wm_resid m"

fun member_index :: "site_member \<Rightarrow> int" where
  "member_index (Atom a) = oa_index a"
| "member_index (Molecule m) = wm_index m"

subsection \<open>Connections\<close>

text \<open>
  A connection is the tuple \<open>(index1, index2, name, type, site status)\<close>; a water-protein
  connection of the undirected finder carries a sixth component.
\<close>

record connection =
  index1 :: int
  index2 :: int
  atom_name :: string
  connection_type :: string
  site_status :: string
  classification :: "string option"

subsection \<open>networkx graphs\<close>

text \<open>
  A graph keeps its nodes and its edges in insertion order. A node created by
  \<open>add_node\<close> carries the attributes \<open>pos\<close>, \<open>atom_category\<close> and \<open>MSA\<close>; a node
  created by \<open>add_edge\<close> for an endpoint that was not a node yet has no attribute
  (\<open>None\<close> here). An undirected graph stores one edge for \<open>(u, v)\<close> and \<open>(v, u)\<close>.
\<close>

record node_attrs =
  pos :: vec3
  atom_category :: string
  MSA :: "string option"

record edge_attrs =
  e_connection_type :: string
  e_active_site :: string

record nx_graph =
  is_directed :: bool
  nodes :: "(int \<times> node_attrs option) list"
  edges :: "((int \<times> int) \<times> edge_attrs) list"

definition nx_Graph :: nx_graph where
  "nx_Graph = \<lparr>is_directed = False, nodes = [], edges = []\<rparr>"

definition nx_DiGraph :: nx_graph where
  "nx_DiGraph = \<lparr>is_directed = True, nodes = [], edges = []\<rparr>"

definition has_node :: "nx_graph \<Rightarrow> int \<Rightarrow> bool" where
  "has_node G n = (n \<in> set (map fst (nodes G)))"

definition add_node :: "nx_graph \<Rightarrow> int \<Rightarrow> node_attrs \<Rightarrow> nx_graph" where
  "add_node G n a =
     (if has_node G n
      then G\<lparr>nodes := map (\<lambda>(m, b). if m = n then (m, Some a) else (m, b)) (nodes G)\<rparr>
      else G\<lparr>nodes := nodes G @ [(n, Some a)]\<rparr>)"

definition touch_node :: "nx_graph \<Rightarrow> int \<Rightarrow> nx_graph" where
  "touch_node G n = (if has_node G n then G else G\<lparr>nodes := nodes G @ [(n, None)]\<rparr>)"

definition same_edge :: "bool \<Rightarrow> int \<times> int \<Rightarrow> int \<times> int \<Rightarrow> bool" where
  "same_edge d e f = (e = f \<or> (\<not> d \<and> e = (snd f, fst f)))"

definition add_edge :: "nx_graph \<Rightarrow> int \<Rightarrow> int \<Rightarrow> edge_attrs \<Rightarrow> nx_graph" where
  "add_edge G u v a =
     (let G1 = touch_node (touch_node G u) v
      in if list_ex (\<lambda>(e, b). same_edge (is_directed G) e (u, v)) (edges G1)
         then G1\<lparr>edges := map (\<lambda>(e, b). if same_edge (is_directed G) e (u, v) then (e, a) else (e, b))
                              (edges G1)\<rparr>
         else G1\<lparr>edges := edges G1 @ [((u, v), a)]\<rparr>)"

definition number_of_nodes :: "nx_graph \<Rightarrow> nat" where
  "number_of_nodes G = length (nodes G)"

definition number_of_edges :: "nx_graph \<Rightarrow> nat" where
  "number_of_edges G = length (edges G)"

subsection \<open>The class WaterNetwork\<close>

record WaterNetwork =
  water_molecules :: "WaterMolecule list"
  protein_atoms :: "OtherAtom list"
  protein_subset :: "OtherAtom list"
  molecules :: "site_member list"
  connections :: "connection list option"
  active_site :: "site_member list option"
  graph :: "nx_graph option"

definition WaterNetwork_init :: WaterNetwork where
  "WaterNetwork_init =
     \<lparr>water_molecules = [], protein_atoms = [], protein_subset = [], molecules = [],
      connections = None, active_site = None, graph = None\<rparr>"

text \<open>
  \<open>add_atom\<close>: for a residue named WAT, HOH or SOL the source calls the constructor of
  \<open>WaterMolecule\<close> with an atom name and three floats in the place of its three atoms;
  no method can read such an object, and the model has no value for it (\<open>None\<close>).
  Any other atom is appended to \<open>protein_atoms\<close>. \<open>'O' in atom_name\<close> is the test that
  the character occurs in the name.
\<close>

definition add_atom ::
  "WaterNetwork \<Rightarrow> int \<Rightarrow> string \<Rightarrow> string \<Rightarrow> vec3 \<Rightarrow> int \<Rightarrow> string option \<Rightarrow> WaterNetwork option" where
  "add_atom self index name residue_name xyz residue_number msa_residue_number =
     (if residue_name = ''WAT'' \<or> residue_name = ''HOH'' \<or> residue_name = ''SOL'' then None
      else
        let hbonding = (CHR ''O'' \<in> set name \<or> CHR ''N'' \<in> set name \<or> CHR ''S'' \<in> set name
                        \<or> CHR ''P'' \<in> set name);
            mol = \<lparr>oa_index = index, oa_coordinates = xyz, oa_resname = residue_name,
                   oa_msa_resid = msa_residue_number, oa_resid = residue_number, oa_name = name,
                   oa_hbonding = hbonding\<rparr>
        in Some (self\<lparr>protein_atoms := protein_atoms self @ [mol]\<rparr>))"

definition add_water ::
  "WaterNetwork \<Rightarrow> int \<Rightarrow> mda_atom \<Rightarrow> mda_atom \<Rightarrow> mda_atom \<Rightarrow> int \<Rightarrow> WaterNetwork" where
  "add_water self index o' h1 h2 residue_number =
     (let ox = mk_WaterAtom (at_index o') ''O'' residue_number (at_position o');
          hy1 = mk_WaterAtom (at_index h1) ''H1'' residue_number (at_position h1);
          hy2 = mk_WaterAtom (at_index h2) ''H2'' residue_number (at_position h2);
          water = mk_WaterMolecule index ox hy1 hy2 residue_number
      in self\<lparr>water_molecules := water_molecules self @ [water]\<rparr>)"

subsection \<open>find\_connections\<close>

definition O_index :: "WaterMolecule \<Rightarrow> int" where
  "O_index mol = wa_index (wm_O mol)"

definition O_coordinates :: "WaterMolecule \<Rightarrow> vec3" where
  "O_coordinates mol = wa_coordinates (wm_O mol)"

text \<open>The status of a water-water pair: only the water of the query row is looked up.\<close>

definition ww_status :: "site_member list option \<Rightarrow> WaterMolecule \<Rightarrow> string" where
  "ww_status act w =
     (case act of
        None \<Rightarrow> ''None''
      | Some fs \<Rightarrow>
          if list_ex (\<lambda>f. wm_resid w = member_resid f) fs then ''active_site''
          else ''not_active_site'')"

definition wp_status :: "site_member list option \<Rightarrow> WaterMolecule \<Rightarrow> OtherAtom \<Rightarrow> string" where
  "wp_status act w p =
     (case act of
        None \<Rightarrow> ''None''
      | Some fs \<Rightarrow>
          if list_ex (\<lambda>f. wm_resid w = member_resid f \<or> oa_resid p = member_resid f) fs
          then ''active_site'' else ''not_active_site'')"

text \<open>
  The body of the two nested loops over the query result, for the slot \<open>(d, neighbor)\<close>
  of row \<open>i\<close>. A slot within the cutoff holds a position of the indexed list, so the
  list accesses are in range where they are evaluated.
\<close>

definition ww_slot ::
  "site_member list option \<Rightarrow> WaterMolecule list \<Rightarrow> real \<Rightarrow> nat \<Rightarrow> real option \<times> nat
   \<Rightarrow> connection list" where
  "ww_slot act waters dist_cutoff i slot =
     (case slot of (d, neighbor) \<Rightarrow>
        if neighbor \<noteq> i \<and> le_cutoff d dist_cutoff then
          (if O_index (waters ! i) < O_index (waters ! neighbor)
           then [\<lparr>index1 = O_index (waters ! i), index2 = O_index (waters ! neighbor),
                  atom_name = ''O'', connection_type = ''WAT-WAT'',
                  site_status = ww_status act (waters ! i), classification = None\<rparr>]
           else [])
        else [])"

definition ww_loop ::
  "site_member list option \<Rightarrow> WaterMolecule list \<Rightarrow> real \<Rightarrow> (real option \<times> nat) list list
   \<Rightarrow> connection list" where
  "ww_loop act waters dist_cutoff rows =
     concat (map (\<lambda>(i, neighbors). concat (map (ww_slot act waters dist_cutoff i) neighbors))
                 (List.enumerate 0 rows))"

definition wp_slot ::
  "site_member list option \<Rightarrow> WaterMolecule list \<Rightarrow> OtherAtom list \<Rightarrow> real \<Rightarrow> nat
   \<Rightarrow> real option \<times> nat \<Rightarrow> connection list" where
  "wp_slot act waters protein dist_cutoff i slot =
     (case slot of (d, neighbor) \<Rightarrow>
        if le_cutoff d dist_cutoff then
          [\<lparr>index1 = oa_index (protein ! neighbor), index2 = O_index (waters ! i),
            atom_name = oa_name (protein ! neighbor), connection_type = ''WAT-PROT'',
            site_status = wp_status act (waters ! i) (protein ! neighbor),
            classification =
              Some (if oa_name (protein ! neighbor) = ''O'' \<or> oa_name (protein ! neighbor) = ''N''
                    then ''backbone'' else ''side-chain'')\<rparr>]
        else [])"

definition wp_loop ::
  "site_member list option \<Rightarrow> WaterMolecule list \<Rightarrow> OtherAtom list \<Rightarrow> real
   \<Rightarrow> (real option \<times> nat) list list \<Rightarrow> connection list" where
  "wp_loop act waters protein dist_cutoff rows =
     concat (map (\<lambda>(i, neighbors). concat (map (wp_slot act waters protein dist_cutoff i) neighbors))
                 (List.enumerate 0 rows))"

text \<open>
  The atoms a finder works on: the active-site selections when \<open>active_site_only\<close> is
  set, the lists of the network otherwise. \<open>water_active\<close> and \<open>protein_active\<close>
  default to \<open>None\<close>; iterating over \<open>None\<close> is a \<open>TypeError\<close>.
\<close>

definition scope :: "bool \<Rightarrow> 'a list option \<Rightarrow> 'a list \<Rightarrow> 'a list option" where
  "scope active_site_only active everything = (if active_site_only then active else Some everything)"

definition find_connections ::
  "WaterNetwork \<Rightarrow> real \<Rightarrow> WaterMolecule list option \<Rightarrow> OtherAtom list option \<Rightarrow> bool \<Rightarrow> bool
   \<Rightarrow> py_error + connection list" where
  "find_connections self dist_cutoff water_active protein_active active_site_only water_only =
     (case scope active_site_only water_active (water_molecules self) of
        None \<Rightarrow> Inl TypeError
      | Some waters \<Rightarrow>
          let water_coords = np_array (map O_coordinates waters) in
          (case cKDTree water_coords of
             Inl e \<Rightarrow> Inl e
           | Inr tree \<Rightarrow>
               (case query tree water_coords 10 dist_cutoff of
                  Inl e \<Rightarrow> Inl e
                | Inr rows \<Rightarrow>
                    let ww = ww_loop (active_site self) waters dist_cutoff rows in
                    if water_only then Inr ww
                    else
                      (case scope active_site_only protein_active (protein_atoms self) of
                         None \<Rightarrow> Inl TypeError
                       | Some protein \<Rightarrow>
                           (case cKDTree (np_array (map oa_coordinates protein)) of
                              Inl e \<Rightarrow> Inl e
                            | Inr ptree \<Rightarrow>
                                (case query ptree water_coords 10 dist_cutoff of
                                   Inl e \<Rightarrow> Inl e
                                 | Inr prows \<Rightarrow>
                                     Inr (ww @ wp_loop (active_site self) waters protein
                                                 dist_cutoff prows)))))))"
subsection \<open>select\_active\_site\<close>

text \<open>
  \<open>distances.distance_array\<close> of MDAnalysis gives the distance of every point of the first
  array to every point of the second: the Euclidean distance without a box, the distance to
  the nearest periodic image with one. The cell is taken orthorhombic and kept as its three
  edge lengths (the first three entries of the \<open>dimensions\<close> of the frame, all positive):
  each component of the difference of two points is reduced by the nearest whole multiple
  of the edge. The matrix is kept as the list of its entries, which is all \<open>np.min\<close> reads.
\<close>

type_synonym box = "real \<times> real \<times> real"

definition minimum_image_component :: "real \<Rightarrow> real \<Rightarrow> real" where
  "minimum_image_component l d = d - l * of_int (round (d / l))"

fun minimum_image :: "box \<Rightarrow> vec3 \<Rightarrow> vec3 \<Rightarrow> real" where
  "minimum_image (lx, ly, lz) (a, b, c) (x, y, z) =
     np_linalg_norm (minimum_image_component lx (a - x), minimum_image_component ly (b - y),
                     minimum_image_component lz (c - z))"

definition pair_distance :: "box option \<Rightarrow> vec3 \<Rightarrow> vec3 \<Rightarrow> real" where
  "pair_distance bx p q = (case bx of None \<Rightarrow> euclid p q | Some b \<Rightarrow> minimum_image b p q)"

definition distance_array ::
  "box option \<Rightarrow> vec3 list \<Rightarrow> vec3 list \<Rightarrow> real list" where
  "distance_array bx ps qs = concat (map (\<lambda>p. map (pair_distance bx p) qs) ps)"

text \<open>
  The body of the loop over the protein atoms: whether the atom goes to the active site,
  and whether it goes to \<open>protein_active\<close>.
\<close>

definition site_protein ::
  "mda_atom list \<Rightarrow> box option \<Rightarrow> real \<Rightarrow> OtherAtom
   \<Rightarrow> py_error + (bool \<times> bool)" where
  "site_protein reference bx active_site_radius atm =
     (if oa_resid atm \<in> set (map at_resid reference) then Inr (True, False)
      else
        (case np_min (distance_array bx [oa_coordinates atm] (map at_position reference)) of
           Inl e \<Rightarrow> Inl e
         | Inr d \<Rightarrow> Inr (d \<le> active_site_radius, d \<le> active_site_radius)))"

text \<open>The body of the loop over the water molecules; the call passes no box.\<close>

definition site_water ::
  "mda_atom list \<Rightarrow> real \<Rightarrow> WaterMolecule \<Rightarrow> py_error + bool" where
  "site_water reference active_site_radius mol =
     (case np_min (distance_array None
                     [wa_coordinates (wm_O mol), wa_coordinates (wm_H1 mol), wa_coordinates (wm_H2 mol)]
                     (map at_position reference)) of
        Inl e \<Rightarrow> Inl e
      | Inr d \<Rightarrow> Inr (d \<le> active_site_radius))"

definition select_active_site ::
  "WaterNetwork \<Rightarrow> mda_atom list \<Rightarrow> box option \<Rightarrow> real
   \<Rightarrow> py_error + (WaterNetwork \<times> site_member list \<times> OtherAtom list \<times> WaterMolecule list)" where
  "select_active_site self reference bx active_site_radius =
     (case mapE (site_protein reference bx active_site_radius) (protein_atoms self) of
        Inl e \<Rightarrow> Inl e
      | Inr pflags \<Rightarrow>
          (case mapE (site_water reference active_site_radius) (water_molecules self) of
             Inl e \<Rightarrow> Inl e
           | Inr wflags \<Rightarrow>
               let protein_site = map fst (filter (\<lambda>(atm, flags). fst flags) (zip (protein_atoms self) pflags));
                   protein_active = map fst (filter (\<lambda>(atm, flags). snd flags) (zip (protein_atoms self) pflags));
                   water_active = map fst (filter snd (zip (water_molecules self) wflags));
                   active_site_atoms = map Atom protein_site @ map Molecule water_active
               in Inr (self\<lparr>active_site := Some active_site_atoms\<rparr>,
                       active_site_atoms, protein_active, water_active)))"

subsection \<open>find\_directed\_connections\<close>

text \<open>
  The lists the method fills in its loop over the waters, two hydrogens per water. The
  site status the same loop computes is overwritten before every use and is left out.
\<close>

definition water_H_indices :: "WaterMolecule list \<Rightarrow> int list" where
  "water_H_indices waters = concat (map (\<lambda>mol. [O_index mol, O_index mol]) waters)"

definition water_H_coords :: "WaterMolecule list \<Rightarrow> vec3 list" where
  "water_H_coords waters =
     concat (map (\<lambda>mol. [wa_coordinates (wm_H1 mol), wa_coordinates (wm_H2 mol)]) waters)"

definition water_H_names :: "WaterMolecule list \<Rightarrow> string list" where
  "water_H_names waters = concat (map (\<lambda>mol. [''H1'', ''H2'']) waters)"

definition name_has :: "char \<Rightarrow> OtherAtom \<Rightarrow> bool" where
  "name_has ch atm = (ch \<in> set (oa_name atm))"

definition is_protO :: "OtherAtom \<Rightarrow> bool" where
  "is_protO atm =
     (name_has CHR ''P'' atm \<or> name_has CHR ''O'' atm \<or> name_has CHR ''N'' atm \<or> name_has CHR ''S'' atm)"

definition is_protH :: "OtherAtom \<Rightarrow> bool" where
  "is_protH atm = (\<not> is_protO atm \<and> name_has CHR ''H'' atm)"

definition directed_status :: "bool \<Rightarrow> site_member list option \<Rightarrow> int \<Rightarrow> int \<Rightarrow> string" where
  "directed_status active_site_only act a b =
     (if \<not> active_site_only then
        (case act of
           None \<Rightarrow> ''None''
         | Some fs \<Rightarrow>
             if list_ex (\<lambda>idx. idx \<in> set [a, b]) (map member_index fs) then ''active_site''
             else ''not_active_site'')
      else ''active_site'')"

definition directed_conn :: "int \<Rightarrow> int \<Rightarrow> string \<Rightarrow> string \<Rightarrow> string \<Rightarrow> connection" where
  "directed_conn a b nm ty st =
     \<lparr>index1 = a, index2 = b, atom_name = nm, connection_type = ty, site_status = st,
      classification = None\<rparr>"

text \<open>
  The angle in degrees between two vectors, \<open>np.degrees(np.arccos(dot / (norm * norm)))\<close>.
  A vector of length zero makes the quotient \<open>0/0\<close>, a NaN (\<open>None\<close>), and every comparison
  with a NaN is false.
\<close>

definition angle_degrees :: "vec3 \<Rightarrow> vec3 \<Rightarrow> real option" where
  "angle_degrees v w =
     (if np_linalg_norm w * np_linalg_norm v = 0 then None
      else Some (arccos (np_dot v w / (np_linalg_norm w * np_linalg_norm v)) * 180 / pi))"

fun angle_ge :: "real option \<Rightarrow> real \<Rightarrow> bool" where
  "angle_ge None a = False"
| "angle_ge (Some x) a = (x \<ge> a)"

text \<open>Two nested loops over a query result whose body may raise.\<close>

definition loopE ::
  "(nat \<Rightarrow> real option \<times> nat \<Rightarrow> py_error + connection list) \<Rightarrow> (real option \<times> nat) list list
   \<Rightarrow> py_error + connection list" where
  "loopE body rows =
     (case mapE (\<lambda>(index_near, row).
                   case mapE (body index_near) row of Inl e \<Rightarrow> Inl e | Inr cs \<Rightarrow> Inr (concat cs))
                (List.enumerate 0 rows) of
        Inl e \<Rightarrow> Inl e
      | Inr css \<Rightarrow> Inr (concat css))"

text \<open>
  Protein hydrogen to water oxygen. With an angle criterion the branch looks up the residue
  of the hydrogen (\<open>[...][0]\<close>: \<open>IndexError\<close> on no match), takes \<open>np.argmin\<close> over the heavy
  atoms of that residue (\<open>ValueError\<close> when there is none) and then reads the local
  variable \<open>water1\<close>, which is assigned only further down: \<open>UnboundLocalError\<close>.
\<close>

definition protH_slot ::
  "WaterNetwork \<Rightarrow> real \<Rightarrow> bool \<Rightarrow> real option \<Rightarrow> WaterMolecule list \<Rightarrow> OtherAtom list
   \<Rightarrow> nat \<Rightarrow> real option \<times> nat \<Rightarrow> py_error + connection list" where
  "protH_slot self dist_cutoff active_site_only angle_criteria waters protH index_near slot =
     (case slot of (distance, ref) \<Rightarrow>
        if le_cutoff distance dist_cutoff then
          let st = directed_status active_site_only (active_site self)
                     (water_H_indices waters ! index_near) (oa_index (protH ! ref))
          in (case angle_criteria of
                None \<Rightarrow>
                  Inr [directed_conn (oa_index (protH ! ref)) (O_index (waters ! index_near))
                         (oa_name (protH ! ref)) ''WAT-PROT'' st]
              | Some a \<Rightarrow>
                  (case filter (\<lambda>atm. oa_index atm = oa_index (protH ! ref)) (protein_atoms self) of
                     [] \<Rightarrow> Inl IndexError
                   | atm0 # _ \<Rightarrow>
                       if filter (\<lambda>atm. oa_resid atm = oa_resid atm0 \<and> \<not> name_has CHR ''H'' atm)
                            (protein_atoms self) = []
                       then Inl ValueError
                       else Inl UnboundLocalError))
        else Inr [])"

text \<open>
  Water hydrogen to protein acceptor. With an angle criterion the branch subtracts a list
  of coordinate tuples (the comprehension lacks its \<open>[0]\<close>) from a vector: an empty list
  does not broadcast against a vector of three, \<open>np.dot\<close> refuses two arrays of shape
  \<open>(m, 3)\<close> for every \<open>m\<close> but three, and for three the result is a matrix whose
  comparison has no truth value. Each is a \<open>ValueError\<close>.
\<close>

definition protO_slot ::
  "WaterNetwork \<Rightarrow> real \<Rightarrow> bool \<Rightarrow> real option \<Rightarrow> WaterMolecule list \<Rightarrow> OtherAtom list
   \<Rightarrow> nat \<Rightarrow> real option \<times> nat \<Rightarrow> py_error + connection list" where
  "protO_slot self dist_cutoff active_site_only angle_criteria waters protO index_near slot =
     (case slot of (distance, ref) \<Rightarrow>
        if le_cutoff distance dist_cutoff then
          let st = directed_status active_site_only (active_site self)
                     (water_H_indices waters ! index_near) (oa_index (protO ! ref))
          in (case angle_criteria of
                None \<Rightarrow>
                  Inr [directed_conn (water_H_indices waters ! index_near) (oa_index (protO ! ref))
                         (water_H_names waters ! index_near) ''WAT-PROT'' st]
              | Some a \<Rightarrow> Inl ValueError)
        else Inr [])"

text \<open>
  Water hydrogen to water oxygen. The hydrogen carries the index of its own oxygen. The
  angle is taken at the hydrogen, between the directions to the acceptor oxygen and to the
  donor oxygen, which is looked up in \<open>self.water_molecules\<close>.
\<close>

definition watO_slot ::
  "WaterNetwork \<Rightarrow> real \<Rightarrow> bool \<Rightarrow> real option \<Rightarrow> WaterMolecule list
   \<Rightarrow> nat \<Rightarrow> real option \<times> nat \<Rightarrow> py_error + connection list" where
  "watO_slot self dist_cutoff active_site_only angle_criteria waters index_near slot =
     (case slot of (distance, ref) \<Rightarrow>
        if le_cutoff distance dist_cutoff then
          let st = directed_status active_site_only (active_site self)
                     (water_H_indices waters ! index_near) (O_index (waters ! ref));
              c = directed_conn (water_H_indices waters ! index_near) (O_index (waters ! ref))
                    (water_H_names waters ! index_near) ''WAT-WAT'' st
          in if water_H_indices waters ! index_near \<noteq> O_index (waters ! ref) then
               (case angle_criteria of
                  None \<Rightarrow>
                    if water_H_indices waters ! index_near < O_index (waters ! ref) then Inr [c]
                    else Inr []
                | Some a \<Rightarrow>
                    (case filter (\<lambda>water. O_index water = water_H_indices waters ! index_near)
                            (water_molecules self) of
                       [] \<Rightarrow> Inl IndexError
                     | donor # _ \<Rightarrow>
                         let water1 = vsub (water_H_coords waters ! index_near) (O_coordinates (waters ! ref));
                             water2 = vsub (water_H_coords waters ! index_near) (O_coordinates donor)
                         in if angle_ge (angle_degrees water1 water2) a
                               \<and> water_H_indices waters ! index_near < O_index (waters ! ref)
                            then Inr [c] else Inr []))
             else Inr []
        else Inr [])"

definition protein_blocks ::
  "WaterNetwork \<Rightarrow> real \<Rightarrow> bool \<Rightarrow> real option \<Rightarrow> WaterMolecule list \<Rightarrow> OtherAtom list
   \<Rightarrow> py_error + connection list" where
  "protein_blocks self dist_cutoff active_site_only angle_criteria waters protein =
     (let protO = filter is_protO protein;
          protH = filter is_protH protein;
          water_O_coords = reshape_m1_3 (np_array (map O_coordinates waters));
          water_H = reshape_m1_3 (np_array (water_H_coords waters))
      in case cKDTree (reshape_m1_3 (np_array (map oa_coordinates protH))) of
           Inl e \<Rightarrow> Inl e
         | Inr treeH \<Rightarrow>
             (case query treeH water_O_coords 10 dist_cutoff of
                Inl e \<Rightarrow> Inl e
              | Inr rowsH \<Rightarrow>
                  (case loopE (protH_slot self dist_cutoff active_site_only angle_criteria waters protH)
                          rowsH of
                     Inl e \<Rightarrow> Inl e
                   | Inr csH \<Rightarrow>
                       (case cKDTree (reshape_m1_3 (np_array (map oa_coordinates protO))) of
                          Inl e \<Rightarrow> Inl e
                        | Inr treeO \<Rightarrow>
                            (case query treeO water_H 10 dist_cutoff of
                               Inl e \<Rightarrow> Inl e
                             | Inr rowsO \<Rightarrow>
                                 (case loopE (protO_slot self dist_cutoff active_site_only
                                                angle_criteria waters protO) rowsO of
                                    Inl e \<Rightarrow> Inl e
                                  | Inr csO \<Rightarrow> Inr (csH @ csO)))))))"

definition water_block ::
  "WaterNetwork \<Rightarrow> real \<Rightarrow> bool \<Rightarrow> real option \<Rightarrow> WaterMolecule list \<Rightarrow> py_error + connection list" where
  "water_block self dist_cutoff active_site_only angle_criteria waters =
     (case cKDTree (reshape_m1_3 (np_array (map O_coordinates waters))) of
        Inl e \<Rightarrow> Inl e
      | Inr tree \<Rightarrow>
          (case query tree (reshape_m1_3 (np_array (water_H_coords waters))) 5 dist_cutoff of
             Inl e \<Rightarrow> Inl e
           | Inr rows \<Rightarrow>
               loopE (watO_slot self dist_cutoff active_site_only angle_criteria waters) rows))"

definition find_directed_connections ::
  "WaterNetwork \<Rightarrow> real \<Rightarrow> WaterMolecule list option \<Rightarrow> OtherAtom list option \<Rightarrow> bool \<Rightarrow> bool
   \<Rightarrow> real option \<Rightarrow> py_error + connection list" where
  "find_directed_connections self dist_cutoff water_active protein_active active_site_only
     water_only angle_criteria =
     (case scope active_site_only water_active (water_molecules self) of
        None \<Rightarrow> Inl TypeError
      | Some waters \<Rightarrow>
          (case (if water_only then Inr []
                 else (case scope active_site_only protein_active (protein_atoms self) of
                         None \<Rightarrow> Inl TypeError
                       | Some protein \<Rightarrow>
                           protein_blocks self dist_cutoff active_site_only angle_criteria
                             waters protein)) of
             Inl e \<Rightarrow> Inl e
           | Inr cs \<Rightarrow>
               (case water_block self dist_cutoff active_site_only angle_criteria waters of
                  Inl e \<Rightarrow> Inl e
                | Inr ws \<Rightarrow> Inr (cs @ ws))))"

subsection \<open>Building the graph\<close>

text \<open>
  \<open>xs[i]\<close> on a Python list: a negative index counts from the end, and an index outside
  the list is an \<open>IndexError\<close>.
\<close>

definition py_getitem :: "'a list \<Rightarrow> int \<Rightarrow> py_error + 'a" where
  "py_getitem xs i =
     (if 0 \<le> i \<and> i < int (length xs) then Inr (xs ! nat i)
      else if i < 0 \<and> - int (length xs) \<le> i then Inr (xs ! nat (i + int (length xs)))
      else Inl IndexError)"

text \<open>A loop that updates a value and may raise.\<close>

fun foldE :: "('a \<Rightarrow> 's \<Rightarrow> py_error + 's) \<Rightarrow> 'a list \<Rightarrow> 's \<Rightarrow> py_error + 's" where
  "foldE f [] s = Inr s"
| "foldE f (x # xs) s = (case f x s of Inl e \<Rightarrow> Inl e | Inr s' \<Rightarrow> foldE f xs s')"

definition water_node :: "WaterMolecule \<Rightarrow> nx_graph \<Rightarrow> nx_graph" where
  "water_node molecule G =
     add_node G (O_index molecule)
       \<lparr>pos = O_coordinates molecule, atom_category = ''WAT'', MSA = None\<rparr>"

text \<open>The protein node of the active-site branch of both builders.\<close>

definition protein_node_active :: "string list \<Rightarrow> OtherAtom \<Rightarrow> nx_graph \<Rightarrow> py_error + nx_graph" where
  "protein_node_active MSA_indices molecule G =
     (case py_getitem MSA_indices (oa_resid molecule - 1) of
        Inl e \<Rightarrow> Inl e
      | Inr MSA_index \<Rightarrow>
          Inr (add_node G (oa_index molecule)
                 \<lparr>pos = oa_coordinates molecule, atom_category = ''PROTEIN'', MSA = Some MSA_index\<rparr>))"

text \<open>The protein node of the all-atoms branch of \<open>generate_oxygen_network\<close>.\<close>

definition protein_node_all :: "string list \<Rightarrow> OtherAtom \<Rightarrow> nx_graph \<Rightarrow> py_error + nx_graph" where
  "protein_node_all MSA_indices molecule G =
     (case py_getitem MSA_indices (oa_resid molecule - 1) of
        Inl e \<Rightarrow> Inl e
      | Inr MSA_index \<Rightarrow>
          Inr (add_node G (oa_index molecule)
                 \<lparr>pos = oa_coordinates molecule, atom_category = ''PROTEIN'', MSA = None\<rparr>))"

text \<open>
  The protein node of the all-atoms branch of \<open>generate_directed_network\<close>: it passes
  \<open>MSA=MSA_index\<close>, a variable that branch never assigns.
\<close>

definition protein_node_all_directed :: "OtherAtom \<Rightarrow> nx_graph \<Rightarrow> py_error + nx_graph" where
  "protein_node_all_directed molecule G = Inl UnboundLocalError"

definition connection_edge :: "connection \<Rightarrow> nx_graph \<Rightarrow> nx_graph" where
  "connection_edge c G =
     add_edge G (index1 c) (index2 c)
       \<lparr>e_connection_type = connection_type c, e_active_site = site_status c\<rparr>"

definition dummy_MSA :: "string list" where
  "dummy_MSA = replicate 10000 ''X''"

text \<open>
  The selection of the active site at the head of both builders. Without a reference the
  variables \<open>water_active\<close> and \<open>protein_active\<close> stay unassigned (\<open>None\<close> in the second
  component).
\<close>

definition select_if_reference ::
  "WaterNetwork \<Rightarrow> box option \<Rightarrow> mda_atom list option \<Rightarrow> real
   \<Rightarrow> py_error + (WaterNetwork \<times> (OtherAtom list \<times> WaterMolecule list) option)" where
  "select_if_reference self bx active_site_reference active_site_radius =
     (case active_site_reference of
        None \<Rightarrow> Inr (self, None)
      | Some reference \<Rightarrow>
          (case select_active_site self reference bx active_site_radius of
             Inl e \<Rightarrow> Inl e
           | Inr (self', site, protein_active, water_active) \<Rightarrow>
               Inr (self', Some (protein_active, water_active))))"

definition generate_oxygen_network ::
  "WaterNetwork \<Rightarrow> box option \<Rightarrow> string list option
   \<Rightarrow> mda_atom list option \<Rightarrow> real \<Rightarrow> bool \<Rightarrow> bool \<Rightarrow> real \<Rightarrow> py_error + WaterNetwork" where
  "generate_oxygen_network self bx msa_indexing active_site_reference active_site_radius
     active_site_only water_only max_connection_distance =
     (case select_if_reference self bx active_site_reference active_site_radius of
        Inl e \<Rightarrow> Inl e
      | Inr (self1, selected) \<Rightarrow>
          let MSA_indices = (case msa_indexing of Some m \<Rightarrow> m | None \<Rightarrow> dummy_MSA) in
          if active_site_only then
            (case selected of
               None \<Rightarrow> Inl UnboundLocalError
             | Some (protein_active, water_active) \<Rightarrow>
                 (case (if water_only then Inr (fold water_node water_active nx_Graph)
                        else foldE (protein_node_active MSA_indices) protein_active
                               (fold water_node water_active nx_Graph)) of
                    Inl e \<Rightarrow> Inl e
                  | Inr G \<Rightarrow>
                      (case find_connections self1 max_connection_distance (Some water_active)
                              (Some protein_active) active_site_only water_only of
                         Inl e \<Rightarrow> Inl e
                       | Inr cs \<Rightarrow>
                           Inr (self1\<lparr>connections := Some cs,
                                  graph := Some (fold connection_edge
                                                   (filter (\<lambda>f. site_status f = ''active_site'') cs) G)\<rparr>))))
          else
            (case (if water_only then Inr (fold water_node (water_molecules self1) nx_Graph)
                   else foldE (protein_node_all MSA_indices) (protein_subset self1)
                          (fold water_node (water_molecules self1) nx_Graph)) of
               Inl e \<Rightarrow> Inl e
             | Inr G \<Rightarrow>
                 (case find_connections self1 max_connection_distance None None False water_only of
                    Inl e \<Rightarrow> Inl e
                  | Inr cs \<Rightarrow>
                      Inr (self1\<lparr>connections := Some cs,
                                  graph := Some (fold connection_edge cs G)\<rparr>))))"

text \<open>
  The directed builder. Its all-atoms branch calls the finder without the angle criterion.
\<close>

definition generate_directed_network ::
  "WaterNetwork \<Rightarrow> box option \<Rightarrow> string list option
   \<Rightarrow> mda_atom list option \<Rightarrow> real \<Rightarrow> bool \<Rightarrow> bool \<Rightarrow> real option \<Rightarrow> real
   \<Rightarrow> py_error + WaterNetwork" where
  "generate_directed_network self bx msa_indexing active_site_reference active_site_radius
     active_site_only water_only angle_criteria max_connection_distance =
     (case select_if_reference self bx active_site_reference active_site_radius of
        Inl e \<Rightarrow> Inl e
      | Inr (self1, selected) \<Rightarrow>
          let MSA_indices = (case msa_indexing of Some m \<Rightarrow> m | None \<Rightarrow> dummy_MSA) in
          if active_site_only then
            (case selected of
               None \<Rightarrow> Inl UnboundLocalError
             | Some (protein_active, water_active) \<Rightarrow>
                 (case (if water_only then Inr (fold water_node water_active nx_DiGraph)
                        else foldE (protein_node_active MSA_indices) protein_active
                               (fold water_node water_active nx_DiGraph)) of
                    Inl e \<Rightarrow> Inl e
                  | Inr G \<Rightarrow>
                      (case find_directed_connections self1 max_connection_distance
                              (Some water_active) (Some protein_active) active_site_only water_only
                              angle_criteria of
                         Inl e \<Rightarrow> Inl e
                       | Inr cs \<Rightarrow>
                           Inr (self1\<lparr>connections := Some cs,
                                  graph := Some (fold connection_edge
                                                   (filter (\<lambda>f. site_status f = ''active_site'') cs) G)\<rparr>))))
          else
            (case (if water_only then Inr (fold water_node (water_molecules self1) nx_DiGraph)
                   else foldE protein_node_all_directed (protein_subset self1)
                          (fold water_node (water_molecules self1) nx_DiGraph)) of
               Inl e \<Rightarrow> Inl e
             | Inr G \<Rightarrow>
                 (case find_directed_connections self1 max_connection_distance None None False
                         water_only None of
                    Inl e \<Rightarrow> Inl e
                  | Inr cs \<Rightarrow>
                      Inr (self1\<lparr>connections := Some cs,
                                  graph := Some (fold connection_edge cs G)\<rparr>))))"

subsection \<open>get\_density\<close>

text \<open>
  \<open>nedges/((nnodes*(nnodes-1))/2)\<close> on Python integers: a true division, which raises
  \<open>ZeroDivisionError\<close> when the divisor is zero.
\<close>

definition density_of :: "nx_graph \<Rightarrow> py_error + real" where
  "density_of S =
     (let nedges = number_of_edges S; nnodes = int (number_of_nodes S)
      in if nnodes * (nnodes - 1) = 0 then Inl ZeroDivisionError
         else Inr (real nedges / (real_of_int (nnodes * (nnodes - 1)) / 2)))"

text \<open>
  For a selection other than \<open>'all'\<close> the method builds its edge list from \<open>S.edges\<close>, and
  \<open>S\<close> is the variable that very statement is about to assign. A network without a graph
  has \<open>self.graph = None\<close>, whose attributes do not exist.
\<close>

definition get_density :: "WaterNetwork \<Rightarrow> string \<Rightarrow> py_error + real" where
  "get_density self selection =
     (case graph self of
        None \<Rightarrow> Inl AttributeError
      | Some G \<Rightarrow> if selection = ''all'' then density_of G else Inl UnboundLocalError)"

subsection \<open>get\_CPL\<close>

text \<open>
  The functions of networkx the method calls. Neighbours follow the direction of the edges
  in a directed graph. A breadth-first search finds the distances from a source, level by
  level; it ends after at most as many levels as the graph has nodes.
\<close>

definition nx_neighbors :: "nx_graph \<Rightarrow> int \<Rightarrow> int list" where
  "nx_neighbors G u =
     concat (map (\<lambda>((a, b), attrs).
                    (if a = u then [b] else []) @
                    (if \<not> is_directed G \<and> b = u \<and> a \<noteq> u then [a] else []))
                 (edges G))"

fun bfs :: "nx_graph \<Rightarrow> nat \<Rightarrow> int list \<Rightarrow> int list \<Rightarrow> nat \<Rightarrow> (int \<times> nat) list" where
  "bfs G 0 frontier seen d = []"
| "bfs G (Suc fuel) frontier seen d =
     (if frontier = [] then []
      else
        let next = remdups (filter (\<lambda>v. v \<notin> set seen) (concat (map (nx_neighbors G) frontier)))
        in map (\<lambda>u. (u, d)) frontier @ bfs G fuel next (seen @ next) (Suc d))"

definition shortest_path_length :: "nx_graph \<Rightarrow> int \<Rightarrow> (int \<times> nat) list" where
  "shortest_path_length G s = bfs G (Suc (number_of_nodes G)) [s] [s] 0"

definition to_undirected :: "nx_graph \<Rightarrow> nx_graph" where
  "to_undirected G =
     fold (\<lambda>((u, v), attrs) H. add_edge H u v attrs) (edges G)
          \<lparr>is_directed = False, nodes = nodes G, edges = []\<rparr>"

definition reaches_all :: "nx_graph \<Rightarrow> int \<Rightarrow> bool" where
  "reaches_all G s = (length (shortest_path_length G s) = number_of_nodes G)"

definition is_connected :: "nx_graph \<Rightarrow> bool" where
  "is_connected G = (case nodes G of [] \<Rightarrow> False | (s, attrs) # rest \<Rightarrow> reaches_all G s)"

definition is_strongly_connected :: "nx_graph \<Rightarrow> bool" where
  "is_strongly_connected G = (nodes G \<noteq> [] \<and> list_all (\<lambda>(s, attrs). reaches_all G s) (nodes G))"

text \<open>
  \<open>nx.average_shortest_path_length\<close>: no value on the null graph, 0 on one node, a
  \<open>NetworkXError\<close> on a graph that is not (strongly) connected, else the sum of the
  distances over all ordered pairs divided by \<open>n (n - 1)\<close>.
\<close>

definition average_shortest_path_length :: "nx_graph \<Rightarrow> py_error + real" where
  "average_shortest_path_length G =
     (let n = number_of_nodes G in
      if n = 0 then Inl NetworkXPointlessConcept
      else if n = 1 then Inr 0
      else if is_directed G \<and> \<not> is_strongly_connected G then Inl NetworkXError
      else if \<not> is_directed G \<and> \<not> is_connected G then Inl NetworkXError
      else Inr (real (sum_list (map (\<lambda>(u, attrs). sum_list (map snd (shortest_path_length G u)))
                                    (nodes G)))
                / real (n * (n - 1))))"

text \<open>
  The same function handed a set of nodes, as the \<open>'longest'\<close> branch does: the size is
  read first, then \<open>G.is_directed()\<close>, which a set does not have.
\<close>

definition average_shortest_path_length_of_set :: "int list \<Rightarrow> py_error + real" where
  "average_shortest_path_length_of_set c =
     (if length c = 0 then Inl NetworkXPointlessConcept
      else if length c = 1 then Inr 0
      else Inl AttributeError)"

fun components :: "nx_graph \<Rightarrow> int list \<Rightarrow> int list \<Rightarrow> int list list" where
  "components G [] seen = []"
| "components G (v # vs) seen =
     (if v \<in> set seen then components G vs seen
      else let c = map fst (shortest_path_length G v) in c # components G vs (seen @ c))"

definition connected_components :: "nx_graph \<Rightarrow> int list list" where
  "connected_components G = components G (map fst (nodes G)) []"

definition subgraph :: "nx_graph \<Rightarrow> int list \<Rightarrow> nx_graph" where
  "subgraph G c =
     G\<lparr>nodes := filter (\<lambda>(n, attrs). n \<in> set c) (nodes G),
       edges := filter (\<lambda>((u, v), attrs). u \<in> set c \<and> v \<in> set c) (edges G)\<rparr>"

text \<open>
  \<open>edge_subgraph\<close> on the edges whose \<open>active_site\<close> attribute equals the selection: those
  edges and the nodes at their ends.
\<close>

definition edge_subgraph :: "nx_graph \<Rightarrow> string \<Rightarrow> nx_graph" where
  "edge_subgraph G selection =
     (let es = filter (\<lambda>(e, attrs). e_active_site attrs = selection) (edges G)
      in G\<lparr>nodes := filter (\<lambda>(n, attrs). list_ex (\<lambda>((u, v), a). n = u \<or> n = v) es) (nodes G),
           edges := es\<rparr>)"

text \<open>\<open>max(..., key=len)\<close>: the first of the longest; a \<open>ValueError\<close> on no element.\<close>

fun max_len :: "'a list list \<Rightarrow> py_error + 'a list" where
  "max_len [] = Inl ValueError"
| "max_len (c # cs) = Inr (fold (\<lambda>x best. if length x > length best then x else best) cs c)"

text \<open>\<open>np.array(xs).mean()\<close>: a NaN (\<open>None\<close>) on the empty array.\<close>

definition np_mean :: "real list \<Rightarrow> real option" where
  "np_mean xs = (if xs = [] then None else Some (sum_list xs / real (length xs)))"

text \<open>
  The method. A network without a graph hands \<open>None\<close> to networkx under the selection
  \<open>'all'\<close>, a \<open>TypeError\<close>, and reads an attribute of \<open>None\<close> under any other.
\<close>

definition get_CPL :: "WaterNetwork \<Rightarrow> string \<Rightarrow> string \<Rightarrow> bool \<Rightarrow> py_error + real option" where
  "get_CPL self selection calculate_path exclude_single_points =
     (case graph self of
        None \<Rightarrow> Inl (if selection = ''all'' then TypeError else AttributeError)
      | Some G \<Rightarrow>
          let S = (if selection = ''all'' then G else edge_subgraph G selection) in
          (case average_shortest_path_length S of
             Inr CPL \<Rightarrow> Inr (Some CPL)
           | Inl NetworkXError \<Rightarrow>
               let S' = (if is_directed S then to_undirected S else S);
                   cc = (if exclude_single_points
                         then filter (\<lambda>f. length f > 1) (connected_components S')
                         else connected_components S')
               in if calculate_path = ''all'' then
                    (case mapE (\<lambda>c. average_shortest_path_length (subgraph S' c)) cc of
                       Inl e \<Rightarrow> Inl e
                     | Inr CPLs \<Rightarrow> Inr (np_mean CPLs))
                  else
                    (case max_len (connected_components S') of
                       Inl e \<Rightarrow> Inl e
                     | Inr largest_cc \<Rightarrow>
                         (case average_shortest_path_length_of_set largest_cc of
                            Inl e \<Rightarrow> Inl e
                          | Inr CPL \<Rightarrow> Inr (Some CPL)))
           | Inl e \<Rightarrow> Inl e))"

subsection \<open>Auxiliary definitions for the statements and proofs\<close>

text \<open>The connection the water-water loop emits for row \<open>i\<close> and neighbour \<open>j\<close>.\<close>

definition ww_conn :: "site_member list option \<Rightarrow> WaterMolecule list \<Rightarrow> nat \<Rightarrow> nat \<Rightarrow> connection" where
  "ww_conn act waters i neighbor =
     \<lparr>index1 = O_index (waters ! i), index2 = O_index (waters ! neighbor),
      atom_name = ''O'', connection_type = ''WAT-WAT'',
      site_status = ww_status act (waters ! i), classification = None\<rparr>"

definition ww_good :: "WaterMolecule list \<Rightarrow> real \<Rightarrow> nat \<Rightarrow> real option \<times> nat \<Rightarrow> bool" where
  "ww_good waters c i slot =
     (snd slot \<noteq> i \<and> le_cutoff (fst slot) c \<and> O_index (waters ! i) < O_index (waters ! snd slot))"

text \<open>The unordered pair of indices a connection joins.\<close>

definition pair_of :: "connection \<Rightarrow> int set" where
  "pair_of x = {index1 x, index2 x}"

definition is_WAT_WAT :: "connection \<Rightarrow> bool" where
  "is_WAT_WAT x = (connection_type x = ''WAT-WAT'')"

text \<open>The two parts of the result of \<open>find_connections\<close>.\<close>

definition WW :: "WaterNetwork \<Rightarrow> real \<Rightarrow> WaterMolecule list \<Rightarrow> connection list" where
  "WW self c waters =
     ww_loop (active_site self) waters c
       (map (query_row (map O_coordinates waters) 10 c) (map O_coordinates waters))"

definition WP :: "WaterNetwork \<Rightarrow> real \<Rightarrow> WaterMolecule list \<Rightarrow> OtherAtom list \<Rightarrow> connection list" where
  "WP self c waters protein =
     wp_loop (active_site self) waters protein c
       (map (query_row (map oa_coordinates protein) 10 c) (map O_coordinates waters))"

text \<open>The positions of the three atoms of a water, as \<open>select_active_site\<close> lists them.\<close>

definition water_points :: "WaterMolecule \<Rightarrow> vec3 list" where
  "water_points mol =
     [wa_coordinates (wm_O mol), wa_coordinates (wm_H1 mol), wa_coordinates (wm_H2 mol)]"

text \<open>The slots of a query result: a row number and an entry of that row.\<close>

definition slots :: "(real option \<times> nat) list list \<Rightarrow> (nat \<times> (real option \<times> nat)) set" where
  "slots rows = {(i, s). i < length rows \<and> s \<in> set (rows ! i)}"

text \<open>
  The angle the water-water branch of the directed finder computes for hydrogen \<open>h\<close> and
  acceptor oxygen \<open>ref\<close>, and the connection it emits for them.
\<close>

definition ww_angle :: "WaterNetwork \<Rightarrow> WaterMolecule list \<Rightarrow> nat \<Rightarrow> nat \<Rightarrow> real option" where
  "ww_angle self waters h ref =
     (case filter (\<lambda>water. O_index water = water_H_indices waters ! h) (water_molecules self) of
        [] \<Rightarrow> None
      | donor # _ \<Rightarrow>
          angle_degrees (vsub (water_H_coords waters ! h) (O_coordinates (waters ! ref)))
                        (vsub (water_H_coords waters ! h) (O_coordinates donor)))"

definition ww_directed_conn :: "WaterNetwork \<Rightarrow> bool \<Rightarrow> WaterMolecule list \<Rightarrow> nat \<Rightarrow> nat \<Rightarrow> connection" where
  "ww_directed_conn self active_site_only waters h ref =
     directed_conn (water_H_indices waters ! h) (O_index (waters ! ref)) (water_H_names waters ! h)
       ''WAT-WAT''
       (directed_status active_site_only (active_site self) (water_H_indices waters ! h)
          (O_index (waters ! ref)))"

text \<open>
  An edge of a given type from index \<open>a\<close> (of the atom named \<open>nm\<close>) to index \<open>b\<close> in a
  list of connections, and the number of indexed points within the cutoff of a query point.
\<close>

definition has_edge :: "connection list \<Rightarrow> string \<Rightarrow> int \<Rightarrow> string \<Rightarrow> int \<Rightarrow> bool" where
  "has_edge cs ty a nm b =
     list_ex (\<lambda>e. connection_type e = ty \<and> index1 e = a \<and> atom_name e = nm \<and> index2 e = b) cs"

definition crowd :: "vec3 list \<Rightarrow> real \<Rightarrow> vec3 \<Rightarrow> nat" where
  "crowd pts c q = length (filter (\<lambda>p. euclid q p < c) pts)"




subsection \<open>Example networks\<close>

definition mk_atom :: "int \<Rightarrow> vec3 \<Rightarrow> int \<Rightarrow> mda_atom" where
  "mk_atom i p r = \<lparr>at_index = i, at_position = p, at_resid = r\<rparr>"

text \<open>
  A water of residue \<open>r\<close> with its oxygen at \<open>(x, 0, 0)\<close>, its first hydrogen one unit
  further along the axis and its second one unit above the oxygen; the atoms have the
  indices \<open>3r - 2\<close>, \<open>3r - 1\<close> and \<open>3r\<close>.
\<close>

definition water_at :: "int \<Rightarrow> real \<Rightarrow> WaterNetwork \<Rightarrow> WaterNetwork" where
  "water_at r x self =
     add_water self r (mk_atom (3 * r - 2) (x, 0, 0) r) (mk_atom (3 * r - 1) (x + 1, 0, 0) r)
       (mk_atom (3 * r) (x, 1, 0) r) r"

definition two_waters :: WaterNetwork where
  "two_waters = water_at 2 3 (water_at 1 0 WaterNetwork_init)"

text \<open>The same two waters with the residue ids, and so the atom indices, exchanged.\<close>

definition two_waters_renumbered :: WaterNetwork where
  "two_waters_renumbered = water_at 1 3 (water_at 2 0 WaterNetwork_init)"

definition three_waters_line :: WaterNetwork where
  "three_waters_line = water_at 3 4 (water_at 2 2 (water_at 1 0 WaterNetwork_init))"

definition three_waters_far :: WaterNetwork where
  "three_waters_far = water_at 3 20 (water_at 2 2 (water_at 1 0 WaterNetwork_init))"


definition water_and_protein :: "WaterNetwork option" where
  "water_and_protein =
     add_atom (water_at 1 0 WaterNetwork_init) 7 ''N'' ''ALA'' (10, 0, 0) 3 None"

text \<open>
  A water and a protein nitrogen whose oxygen and nitrogen sit at the same point, near the
  far face of a cell of edge 10.
\<close>

definition water_and_atom_across :: "WaterNetwork option" where
  "water_and_atom_across =
     add_atom (water_at 1 (19 / 2) WaterNetwork_init) 7 ''N'' ''ALA'' (19 / 2, 0, 0) 3 None"

text \<open>Two waters, a protein nitrogen and a protein hydrogen.\<close>

definition waters_and_atoms :: "WaterNetwork option" where
  "waters_and_atoms =
     Option.bind (add_atom two_waters 7 ''N'' ''ALA'' (1, 2, 0) 3 None)
       (\<lambda>self. add_atom self 8 ''HA'' ''ALA'' (0, 0, - 2) 3 None)"

section \<open>Properties\<close>

subsection \<open>Evaluation of concrete inputs\<close>

lemma euclid_simp:
  "euclid (a, b, c) (x, y, z) = sqrt ((a - x) * (a - x) + (b - y) * (b - y) + (c - z) * (c - z))"
  by (simp add: euclid_def np_linalg_norm_def)

lemma sqrt_le_iff: "0 \<le> y \<Longrightarrow> sqrt x \<le> y \<longleftrightarrow> x \<le> y * y"
  by (metis abs_of_nonneg real_sqrt_abs2 real_sqrt_le_iff)

lemma le_sqrt_iff: "0 \<le> y \<Longrightarrow> y \<le> sqrt x \<longleftrightarrow> y * y \<le> x"
  by (metis abs_of_nonneg real_sqrt_abs2 real_sqrt_le_iff)

lemma sqrt_times_le_iff:
  assumes "0 \<le> a" "0 < b"
  shows "sqrt x * b \<le> a \<longleftrightarrow> x * (b * b) \<le> a * a"
proof -
  have "sqrt x * b \<le> a \<longleftrightarrow> sqrt x \<le> a / b"
    using assms by (simp add: pos_le_divide_eq)
  also have "\<dots> \<longleftrightarrow> x \<le> (a / b) * (a / b)"
    using assms by (intro sqrt_le_iff) simp
  also have "\<dots> \<longleftrightarrow> x * (b * b) \<le> a * a"
    using assms by (simp add: field_simps)
  finally show ?thesis .
qed

lemma le_sqrt_times_iff:
  assumes "0 \<le> a" "0 < b"
  shows "a \<le> sqrt x * b \<longleftrightarrow> a * a \<le> x * (b * b)"
proof -
  have "a \<le> sqrt x * b \<longleftrightarrow> a / b \<le> sqrt x"
    using assms by (simp add: pos_divide_le_eq)
  also have "\<dots> \<longleftrightarrow> (a / b) * (a / b) \<le> x"
    using assms by (intro le_sqrt_iff) simp
  also have "\<dots> \<longleftrightarrow> a * a \<le> x * (b * b)"
    using assms by (simp add: field_simps)
  finally show ?thesis .
qed

lemma sqrt_less_iff: "0 \<le> y \<Longrightarrow> sqrt x < y \<longleftrightarrow> x < y * y"
  using le_sqrt_iff[of y x] by (simp add: not_le[symmetric])

lemma less_sqrt_iff: "0 \<le> y \<Longrightarrow> y < sqrt x \<longleftrightarrow> y * y < x"
  using sqrt_le_iff[of y x] by (simp add: not_le[symmetric])

lemma sqrt_times_less_iff:
  assumes "0 \<le> a" "0 < b"
  shows "sqrt x * b < a \<longleftrightarrow> x * (b * b) < a * a"
  using le_sqrt_times_iff[OF assms, of x] by (simp add: not_le[symmetric])

lemma less_sqrt_times_iff:
  assumes "0 \<le> a" "0 < b"
  shows "a < sqrt x * b \<longleftrightarrow> a * a < x * (b * b)"
  using sqrt_times_le_iff[OF assms, of x] by (simp add: not_le[symmetric])

lemma mapE_append:
  "mapE f (xs @ ys) =
     (case mapE f xs of
        Inl e \<Rightarrow> Inl e
      | Inr as \<Rightarrow> (case mapE f ys of Inl e \<Rightarrow> Inl e | Inr bs \<Rightarrow> Inr (as @ bs)))"
  by (induction xs) (auto split: sum.splits)

lemma mapE_replicate:
  "mapE f (replicate n x) =
     (if n = 0 then Inr [] else (case f x of Inl e \<Rightarrow> Inl e | Inr y \<Rightarrow> Inr (replicate n y)))"
  by (induction n) (auto split: sum.splits)

lemmas net_defs = two_waters_def two_waters_renumbered_def three_waters_line_def three_waters_far_def water_at_def
  add_water_def mk_atom_def mk_WaterAtom_def mk_WaterMolecule_def WaterNetwork_init_def
  water_and_protein_def add_atom_def

lemmas kd_defs = cKDTree_def np_array_def reshape_m1_3_def query_row_def hits_def
  euclid_simp sqrt_le_iff le_sqrt_iff sqrt_times_le_iff le_sqrt_times_iff sqrt_less_iff
  less_sqrt_iff sqrt_times_less_iff less_sqrt_times_iff O_coordinates_def
  O_index_def Let_def enumerate_eq_zip mapE_append mapE_replicate

lemmas fc_defs = find_connections_def scope_def ww_loop_def ww_slot_def ww_status_def
  wp_loop_def wp_slot_def wp_status_def

lemmas sel_defs = select_active_site_def site_protein_def site_water_def distance_array_def
  pair_distance_def

lemma sqrt_quarter: "sqrt (1 / 4) = 1 / 2"
  by (simp add: real_sqrt_divide)

lemmas mic_defs = minimum_image_component_def round_def np_linalg_norm_def sqrt_quarter

lemmas gen_defs = generate_oxygen_network_def generate_directed_network_def
  select_if_reference_def water_node_def connection_edge_def add_node_def add_edge_def
  touch_node_def has_node_def same_edge_def nx_Graph_def nx_DiGraph_def protein_node_active_def
  protein_node_all_def protein_node_all_directed_def py_getitem_def

lemmas dir_defs = find_directed_connections_def protein_blocks_def water_block_def loopE_def
  protH_slot_def protO_slot_def watO_slot_def water_H_indices_def water_H_coords_def
  water_H_names_def directed_status_def directed_conn_def is_protO_def is_protH_def name_has_def

lemmas cpl_defs = get_CPL_def average_shortest_path_length_def number_of_nodes_def
  number_of_edges_def is_connected_def reaches_all_def shortest_path_length_def nx_neighbors_def
  connected_components_def average_shortest_path_length_of_set_def get_density_def density_of_def
  edge_subgraph_def subgraph_def np_mean_def to_undirected_def is_strongly_connected_def

subsection \<open>The query of the k-d tree\<close>

lemma set_hits:
  "set (hits pts q ub) =
   {(euclid q (pts ! j), j) | j. j < length pts \<and> euclid q (pts ! j) < ub}"
  by (auto simp: hits_def)

lemma distinct_hits: "distinct (map snd (hits pts q ub))"
proof -
  have "distinct (map snd (filter (\<lambda>(d, j). d < ub)
          (map (\<lambda>j. (euclid q (pts ! j), j)) [0..<length pts])))"
    by (rule distinct_map_filter) (simp add: comp_def)
  then show ?thesis
    unfolding hits_def by (simp add: distinct_map)
qed

lemma length_hits:
  "length (hits pts q ub) = card {j. j < length pts \<and> euclid q (pts ! j) < ub}"
proof -
  have "length (hits pts q ub) = length (map snd (hits pts q ub))" by simp
  also have "\<dots> = card (set (map snd (hits pts q ub)))"
    using distinct_hits by (metis distinct_card)
  also have "set (map snd (hits pts q ub)) = {j. j < length pts \<and> euclid q (pts ! j) < ub}"
    by (auto simp: set_hits image_iff)
  finally show ?thesis .
qed

lemma query_row_Some:
  assumes "(Some d, j) \<in> set (query_row pts k ub q)"
  shows "j < length pts \<and> d = euclid q (pts ! j) \<and> d < ub"
proof -
  from assms have "(d, j) \<in> set (take k (hits pts q ub))"
    by (auto simp: query_row_def Let_def)
  then have "(d, j) \<in> set (hits pts q ub)" by (rule in_set_takeD)
  then show ?thesis by (auto simp: set_hits)
qed

lemma query_row_complete:
  assumes "length (hits pts q ub) \<le> k" "j < length pts" "euclid q (pts ! j) < ub"
  shows "(Some (euclid q (pts ! j)), j) \<in> set (query_row pts k ub q)"
proof -
  have "(euclid q (pts ! j), j) \<in> set (hits pts q ub)" using assms by (auto simp: set_hits)
  moreover have "take k (hits pts q ub) = hits pts q ub" using assms by simp
  ultimately show ?thesis by (force simp: query_row_def Let_def)
qed

lemma le_cutoff_iff: "le_cutoff d c \<longleftrightarrow> (\<exists>x. d = Some x \<and> x \<le> c)"
  by (cases d) auto

subsection \<open>The loops of find\_connections\<close>

lemma concat_map_if: "concat (map (\<lambda>x. if P x then [g x] else []) xs) = map g (filter P xs)"
  by (induction xs) auto

lemma ww_row_eq:
  "concat (map (ww_slot act waters c i) row) =
   map (\<lambda>s. ww_conn act waters i (snd s)) (filter (ww_good waters c i) row)"
proof -
  have "ww_slot act waters c i =
        (\<lambda>s. if ww_good waters c i s then [ww_conn act waters i (snd s)] else [])"
    by (auto simp: fun_eq_iff ww_slot_def ww_good_def ww_conn_def)
  then show ?thesis by (simp add: concat_map_if)
qed

lemma ww_loop_eq:
  "ww_loop act waters c rows =
   concat (map (\<lambda>(i, row). map (\<lambda>s. ww_conn act waters i (snd s)) (filter (ww_good waters c i) row))
               (List.enumerate 0 rows))"
  by (simp add: ww_loop_def ww_row_eq)

lemma in_set_ww_loop:
  "x \<in> set (ww_loop act waters c rows) \<longleftrightarrow>
   (\<exists>i s. i < length rows \<and> s \<in> set (rows ! i) \<and> ww_good waters c i s
          \<and> x = ww_conn act waters i (snd s))"
  (is "?L \<longleftrightarrow> ?R")
proof
  assume ?L
  then obtain p where p: "p \<in> set (List.enumerate 0 rows)"
    and x: "x \<in> (\<lambda>s. ww_conn act waters (fst p) (snd s)) `
                 {s \<in> set (snd p). ww_good waters c (fst p) s}"
    by (auto simp: ww_loop_eq split_def)
  from p have "fst p < length rows" "snd p = rows ! fst p"
    by (simp_all add: in_set_enumerate_eq)
  moreover from x obtain s where "s \<in> set (snd p)" "ww_good waters c (fst p) s"
    "x = ww_conn act waters (fst p) (snd s)" by blast
  ultimately show ?R by metis
next
  assume ?R
  then obtain i s where h: "i < length rows" "s \<in> set (rows ! i)" "ww_good waters c i s"
    "x = ww_conn act waters i (snd s)" by blast
  then have "(i, rows ! i) \<in> set (List.enumerate 0 rows)"
    by (simp add: in_set_enumerate_eq)
  with h show ?L
    unfolding ww_loop_eq
    by (simp add: split_def) (metis (mono_tags, lifting) fst_conv image_eqI mem_Collect_eq snd_conv)
qed

lemma distinct_concat_map:
  assumes "distinct xs"
    and "\<And>x. x \<in> set xs \<Longrightarrow> distinct (f x)"
    and "\<And>x y. x \<in> set xs \<Longrightarrow> y \<in> set xs \<Longrightarrow> x \<noteq> y \<Longrightarrow> set (f x) \<inter> set (f y) = {}"
  shows "distinct (concat (map f xs))"
  using assms
proof (induction xs)
  case Nil
  then show ?case by simp
next
  case (Cons a xs)
  have "distinct (concat (map f xs))"
    by (rule Cons.IH) (use Cons.prems in auto)
  moreover have "distinct (f a)" using Cons.prems(2) by simp
  moreover have "set (f a) \<inter> set (f y) = {}" if "y \<in> set xs" for y
    using Cons.prems(1) Cons.prems(3)[of a y] that by auto
  ultimately show ?case by auto
qed

lemma distinct_map_comp:
  assumes "distinct (map f xs)" "inj_on g (set (map f xs))"
  shows "distinct (map (\<lambda>x. g (f x)) xs)"
proof -
  have "distinct (map g (map f xs))"
    using assms by (simp only: distinct_map[of g])
  then show ?thesis by (simp add: comp_def)
qed

lemma find_connections_Inr_iff:
  "find_connections self c wa pa aso wo = Inr cs \<longleftrightarrow>
   (\<exists>waters. scope aso wa (water_molecules self) = Some waters \<and> waters \<noteq> [] \<and>
      (if wo then cs = WW self c waters
       else \<exists>protein. scope aso pa (protein_atoms self) = Some protein \<and> protein \<noteq> [] \<and>
              cs = WW self c waters @ WP self c waters protein))"
  unfolding find_connections_def WW_def WP_def cKDTree_def np_array_def Let_def
  by (auto split: option.splits sum.splits if_splits)

lemma ww_loop_type: "x \<in> set (ww_loop act waters c rows) \<Longrightarrow> connection_type x = ''WAT-WAT''"
  by (auto simp: in_set_ww_loop ww_conn_def)

lemma wp_loop_type:
  "x \<in> set (wp_loop act waters protein c rows) \<Longrightarrow> connection_type x = ''WAT-PROT''"
  by (auto simp: wp_loop_def wp_slot_def split: if_splits)

lemma ww_loop_lt: "x \<in> set (ww_loop act waters c rows) \<Longrightarrow> index1 x < index2 x"
  by (auto simp: in_set_ww_loop ww_conn_def ww_good_def)

lemma good_row_eq:
  "filter (ww_good waters c i) (query_row pts k c q) =
   map (\<lambda>(d, j). (Some d, j))
     (filter (\<lambda>(d, j). j \<noteq> i \<and> O_index (waters ! i) < O_index (waters ! j)) (take k (hits pts q c)))"
proof -
  have "filter (ww_good waters c i) (replicate m (None, n)) = []" for m n
    by (simp add: ww_good_def)
  moreover have "filter (ww_good waters c i) (map (\<lambda>(d, j). (Some d, j)) xs) =
     map (\<lambda>(d, j). (Some d, j))
       (filter (\<lambda>(d, j). j \<noteq> i \<and> O_index (waters ! i) < O_index (waters ! j)) xs)"
    if "\<forall>x\<in>set xs. fst x < c" for xs
    using that by (induction xs) (auto simp: ww_good_def)
  moreover have "\<forall>x\<in>set (take k (hits pts q c)). fst x < c"
    by (auto dest!: in_set_takeD simp: set_hits)
  ultimately show ?thesis by (simp add: query_row_def Let_def)
qed

lemma distinct_good_row:
  "distinct (map snd (filter (ww_good waters c i) (query_row pts k c q)))"
proof -
  have "distinct (map snd (take k (hits pts q c)))"
    by (simp add: distinct_hits distinct_take flip: take_map)
  then have "distinct (map snd (filter (\<lambda>(d, j). j \<noteq> i \<and> O_index (waters ! i) < O_index (waters ! j))
                                  (take k (hits pts q c))))"
    by (rule distinct_map_filter)
  then show ?thesis by (simp add: good_row_eq comp_def split_def)
qed

lemma good_row_bound:
  "s \<in> set (filter (ww_good waters c i) (query_row pts k c q)) \<Longrightarrow> snd s < length pts"
  by (auto simp: good_row_eq dest!: in_set_takeD simp: set_hits)

lemma distinct_pairs_ww:
  assumes "distinct (map O_index waters)"
  shows "distinct (map pair_of (WW self c waters))"
proof -
  let ?pts = "map O_coordinates waters"
  let ?rows = "map (query_row ?pts 10 c) ?pts"
  let ?F = "\<lambda>(i, row). map (\<lambda>s. pair_of (ww_conn (active_site self) waters i (snd s)))
                            (filter (ww_good waters c i) row)"
  have idx_inj: "O_index (waters ! a) = O_index (waters ! b) \<Longrightarrow> a = b"
    if "a < length waters" "b < length waters" for a b
    using assms that by (metis length_map nth_eq_iff_index_eq nth_map)
  have eq: "map pair_of (WW self c waters) = concat (map ?F (List.enumerate 0 ?rows))"
    by (simp add: WW_def ww_loop_eq map_concat comp_def split_def)
  have "distinct (concat (map ?F (List.enumerate 0 ?rows)))"
  proof (rule distinct_concat_map)
    show "distinct (List.enumerate 0 ?rows)" by (simp add: distinct_enumerate)
  next
    fix x assume "x \<in> set (List.enumerate 0 ?rows)"
    then have "fst x < length waters" "snd x = query_row ?pts 10 c (?pts ! fst x)"
      by (auto simp add: in_set_enumerate_eq)
    then obtain i where x: "x = (i, query_row ?pts 10 c (?pts ! i))" and i: "i < length waters"
      by (metis prod.collapse)
    let ?good = "filter (ww_good waters c i) (query_row ?pts 10 c (?pts ! i))"
    have "distinct (map snd ?good)" by (rule distinct_good_row)
    moreover have "inj_on (\<lambda>j. pair_of (ww_conn (active_site self) waters i j)) (set (map snd ?good))"
    proof (rule inj_onI)
      fix a b assume a: "a \<in> set (map snd ?good)" and b: "b \<in> set (map snd ?good)"
        and e: "pair_of (ww_conn (active_site self) waters i a) =
                pair_of (ww_conn (active_site self) waters i b)"
      from a b have "a < length waters" "b < length waters"
        using good_row_bound[of _ waters c i ?pts 10 "?pts ! i"] by auto
      moreover from e have "O_index (waters ! a) = O_index (waters ! b)"
        by (auto simp: pair_of_def ww_conn_def doubleton_eq_iff)
      ultimately show "a = b" by (rule idx_inj)
    qed
    ultimately have "distinct (map (\<lambda>s. pair_of (ww_conn (active_site self) waters i (snd s))) ?good)"
      by (rule distinct_map_comp)
    then show "distinct (?F x)" by (simp add: x)
  next
    fix x y
    assume xs: "x \<in> set (List.enumerate 0 ?rows)" and ys: "y \<in> set (List.enumerate 0 ?rows)"
      and ne: "x \<noteq> y"
    from xs ys have fx: "fst x < length waters" "snd x = ?rows ! fst x"
      and fy: "fst y < length waters" "snd y = ?rows ! fst y"
      by (simp_all add: in_set_enumerate_eq)
    with ne have ine: "fst x \<noteq> fst y" by (metis prod.collapse)
    show "set (?F x) \<inter> set (?F y) = {}"
    proof (rule ccontr)
      assume "set (?F x) \<inter> set (?F y) \<noteq> {}"
      then obtain s t where s: "ww_good waters c (fst x) s" and t: "ww_good waters c (fst y) t"
        and e: "pair_of (ww_conn (active_site self) waters (fst x) (snd s)) =
                pair_of (ww_conn (active_site self) waters (fst y) (snd t))"
        by (auto simp: split_def)
      from s t e have "O_index (waters ! fst x) = O_index (waters ! fst y)"
        by (auto simp: pair_of_def ww_conn_def ww_good_def doubleton_eq_iff)
      with fx fy idx_inj ine show False by blast
    qed
  qed
  with eq show ?thesis by simp
qed

lemma filter_WAT_WAT:
  "filter is_WAT_WAT (WW self c waters @ WP self c waters protein) = WW self c waters"
proof -
  have "filter is_WAT_WAT (WW self c waters) = WW self c waters"
    by (rule filter_True) (auto simp: WW_def is_WAT_WAT_def dest: ww_loop_type)
  moreover have "filter is_WAT_WAT (WP self c waters protein) = []"
    by (rule filter_False) (auto simp: WP_def is_WAT_WAT_def dest: wp_loop_type)
  ultimately show ?thesis by simp
qed

text \<open>
  C2. Every water-water connection the undirected finder returns has the lower oxygen
  index first, and no unordered pair of oxygen indices occurs in two of them. The atoms of
  a frame have the indices of the trajectory, one per atom: the oxygens the finder works on
  have pairwise different indices.
\<close>

theorem find_connections_lower_first_and_once:
  assumes "find_connections self dist_cutoff water_active protein_active active_site_only
             water_only = Inr cs"
    and "scope active_site_only water_active (water_molecules self) = Some waters"
    and "distinct (map O_index waters)"
  shows "(\<forall>x\<in>set cs. is_WAT_WAT x \<longrightarrow> index1 x < index2 x)
         \<and> distinct (map pair_of (filter is_WAT_WAT cs))"
proof -
  from assms(1,2) have cs: "cs = WW self dist_cutoff waters \<or>
      (\<exists>protein. cs = WW self dist_cutoff waters @ WP self dist_cutoff waters protein)"
    by (auto simp: find_connections_Inr_iff split: if_splits)
  then have f: "filter is_WAT_WAT cs = WW self dist_cutoff waters"
  proof
    assume "cs = WW self dist_cutoff waters"
    moreover have "filter is_WAT_WAT (WW self dist_cutoff waters) = WW self dist_cutoff waters"
      by (rule filter_True) (auto simp: WW_def is_WAT_WAT_def dest: ww_loop_type)
    ultimately show ?thesis by simp
  next
    assume "\<exists>protein. cs = WW self dist_cutoff waters @ WP self dist_cutoff waters protein"
    then show ?thesis by (auto simp: filter_WAT_WAT simp del: filter_append)
  qed
  have "index1 x < index2 x" if "x \<in> set cs" "is_WAT_WAT x" for x
  proof -
    from that have "x \<in> set (filter is_WAT_WAT cs)" by simp
    then show ?thesis unfolding f WW_def by (rule ww_loop_lt)
  qed
  moreover have "distinct (map pair_of (filter is_WAT_WAT cs))"
    unfolding f using assms(3) by (rule distinct_pairs_ww)
  ultimately show ?thesis by blast
qed

theorem find_connections_lower_first_and_once_witness:
  "find_connections three_waters_line 3 None None False True =
     Inr [\<lparr>index1 = 1, index2 = 4, atom_name = ''O'', connection_type = ''WAT-WAT'',
            site_status = ''None'', classification = None\<rparr>,
          \<lparr>index1 = 4, index2 = 7, atom_name = ''O'', connection_type = ''WAT-WAT'',
            site_status = ''None'', classification = None\<rparr>]
   \<and> map O_index (water_molecules three_waters_line) = [1, 4, 7]
   \<and> distinct (map pair_of
        [\<lparr>index1 = 1, index2 = 4, atom_name = ''O'', connection_type = ''WAT-WAT'',
            site_status = ''None'', classification = None\<rparr>,
         \<lparr>index1 = 4, index2 = 7, atom_name = ''O'', connection_type = ''WAT-WAT'',
            site_status = ''None'', classification = None\<rparr>])"
proof -
  have r: "find_connections three_waters_line 3 None None False True =
     Inr [\<lparr>index1 = 1, index2 = 4, atom_name = ''O'', connection_type = ''WAT-WAT'',
            site_status = ''None'', classification = None\<rparr>,
          \<lparr>index1 = 4, index2 = 7, atom_name = ''O'', connection_type = ''WAT-WAT'',
            site_status = ''None'', classification = None\<rparr>]"
    by (simp add: net_defs kd_defs fc_defs)
  have s: "scope False None (water_molecules three_waters_line)
           = Some (water_molecules three_waters_line)"
    by (simp add: scope_def)
  have i: "map O_index (water_molecules three_waters_line) = [1, 4, 7]"
    by (simp add: net_defs O_index_def)
  have d: "distinct (map O_index (water_molecules three_waters_line))"
    unfolding i by simp
  from find_connections_lower_first_and_once[OF r s d] r i
  show ?thesis by (simp add: is_WAT_WAT_def)
qed

subsection \<open>Inputs on which the code departs from its specification\<close>

text \<open>
  C4. The claim: a water-water edge of the undirected finder is tagged \<open>active_site\<close>
  when the residue of either of its two waters is in the active set. On the two waters
  below, with a reference atom that puts only the second water (residue 2, oxygen 4) into
  the active site, the finder tags the edge between the oxygens 1 and 4
  \<open>not_active_site\<close>: the loop looks up the water of the query row only, while the
  water-protein loop of the same method looks up both ends.
\<close>

theorem ww_status_ignores_neighbor:
  "\<exists>self1 site protein_active water_active.
     select_active_site two_waters [mk_atom 100 (6, 0, 0) 50] None 4
       = Inr (self1, site, protein_active, water_active)
     \<and> map member_resid site = [2]
     \<and> map wm_resid (water_molecules self1) = [1, 2]
     \<and> find_connections self1 4 None None False True =
         Inr [\<lparr>index1 = 1, index2 = 4, atom_name = ''O'', connection_type = ''WAT-WAT'',
                site_status = ''not_active_site'', classification = None\<rparr>]"
  by (simp add: net_defs sel_defs kd_defs fc_defs)

text \<open>
  C6. The claim: for every selection mode \<open>get_density\<close> returns the edges of the selected
  subgraph divided by \<open>N (N - 1) / 2\<close>. On the graph of three waters in a line (two edges,
  three nodes) the selection \<open>all\<close> gives 2/3, and each of the other two selections raises
  \<open>UnboundLocalError\<close>: the method reads \<open>S.edges\<close> to build \<open>S\<close>, where its sibling
  methods read \<open>self.graph.edges\<close>.
\<close>

theorem get_density_selection_unbound:
  "\<exists>n. generate_oxygen_network three_waters_line None None None 8 False True 3 = Inr n
     \<and> get_density n ''all'' = Inr (2 / 3)
     \<and> get_density n ''active_site'' = Inl UnboundLocalError
     \<and> get_density n ''not_active_site'' = Inl UnboundLocalError"
  by (simp add: net_defs sel_defs kd_defs fc_defs gen_defs cpl_defs)

text \<open>
  C7. The claim: on a disconnected graph \<open>calculate_path='longest'\<close> returns the average
  shortest path length of the largest component. On the graph of three waters of which the
  third is far away (components \<open>{1, 4}\<close> and \<open>{7}\<close>), \<open>'all'\<close> without single points
  gives 1, the value of the component of size two, and \<open>'longest'\<close> raises: the branch hands
  the set of nodes of the component to \<open>average_shortest_path_length\<close>, not the subgraph
  the \<open>'all'\<close> branch builds.
\<close>

theorem get_CPL_longest_fails:
  "\<exists>n. generate_oxygen_network three_waters_far None None None 8 False True 3 = Inr n
     \<and> map (map fst) (map nodes (case graph n of None \<Rightarrow> [] | Some G \<Rightarrow> [G])) = [[1, 4, 7]]
     \<and> map (map fst) (map edges (case graph n of None \<Rightarrow> [] | Some G \<Rightarrow> [G])) = [[(1, 4)]]
     \<and> get_CPL n ''all'' ''all'' True = Inr (Some 1)
     \<and> get_CPL n ''all'' ''longest'' False = Inl AttributeError
     \<and> get_CPL n ''all'' ''longest'' True = Inl AttributeError"
  by (simp add: net_defs sel_defs kd_defs fc_defs gen_defs cpl_defs)

text \<open>
  C8. The claim: with an empty indexed point set the connection finders return without
  failing. \<open>find_connections\<close> raises \<open>ValueError\<close> on a network without waters, and on
  a network with waters and without protein atoms unless it is water-only: \<open>np.array\<close> of
  an empty list has one dimension, and the tree refuses it. \<open>find_directed_connections\<close>
  reshapes its arrays with \<open>reshape(-1, 3)\<close> and returns on both networks.
\<close>

theorem find_connections_empty_index_fails:
  "find_connections WaterNetwork_init 3 None None False True = Inl ValueError
   \<and> find_connections two_waters 3 None None False False = Inl ValueError
   \<and> find_directed_connections WaterNetwork_init (3 / 2) None None False False None = Inr []
   \<and> find_directed_connections two_waters (3 / 2) None None False False None = Inr []"
  by (simp add: net_defs kd_defs fc_defs dir_defs)

text \<open>
  C9. The claim: unless water-only, the graph gets one node of category PROTEIN per
  included protein atom, in both scoping modes. In the all-atoms mode both builders loop
  over \<open>self.protein_subset\<close>, which \<open>__init__\<close> sets to the empty list and nothing fills:
  \<open>add_atom\<close> appends to \<open>self.protein_atoms\<close>. With one water and the protein atom 7
  the graph of either builder has the node of the water oxygen only.
\<close>

theorem all_atoms_mode_adds_no_protein_node:
  "\<exists>self n m.
     water_and_protein = Some self
     \<and> map oa_index (protein_atoms self) = [7]
     \<and> generate_oxygen_network self None None None 8 False False 3 = Inr n
     \<and> map nodes (case graph n of None \<Rightarrow> [] | Some G \<Rightarrow> [G])
          = [[(1, Some \<lparr>pos = (0, 0, 0), atom_category = ''WAT'', MSA = None\<rparr>)]]
     \<and> generate_directed_network self None None None 8 False False None 3 = Inr m
     \<and> map nodes (case graph m of None \<Rightarrow> [] | Some G \<Rightarrow> [G])
          = [[(1, Some \<lparr>pos = (0, 0, 0), atom_category = ''WAT'', MSA = None\<rparr>)]]"
  by (simp add: net_defs sel_defs kd_defs fc_defs gen_defs dir_defs)

text \<open>
  C10. The claim: a residue id whose lookup in the alignment map is out of range gives the
  node no alignment, and construction does not fail. With an alignment list of two entries
  and an active-site protein atom of residue 3, both builders raise \<open>IndexError\<close> at
  \<open>MSA_indices[molecule.resid-1]\<close>; \<open>extract_objects_per_frame\<close> wraps the same lookup in
  \<open>try\<close>/\<open>except\<close> and falls back to \<open>None\<close>.
\<close>

theorem alignment_lookup_out_of_range_raises:
  "\<exists>self.
     water_and_protein = Some self
     \<and> map oa_resid (protein_atoms self) = [3]
     \<and> generate_oxygen_network self None (Some [''A'', ''B''])
          (Some [mk_atom 100 (12, 0, 0) 50]) 3 True False 3 = Inl IndexError
     \<and> generate_directed_network self None (Some [''A'', ''B''])
          (Some [mk_atom 100 (12, 0, 0) 50]) 3 True False None 3 = Inl IndexError"
  by (simp add: net_defs sel_defs kd_defs fc_defs gen_defs dir_defs)

subsection \<open>select\_active\_site\<close>

lemma mapE_pure: "(\<And>x. x \<in> set xs \<Longrightarrow> f x = Inr (g x)) \<Longrightarrow> mapE f xs = Inr (map g xs)"
  by (induction xs) auto

lemma filter_zip_map:
  "map fst (filter (\<lambda>(a, fl). P fl) (zip xs (map g xs))) = filter (\<lambda>a. P (g a)) xs"
  by (induction xs) auto

lemma np_min_Min:
  assumes "xs \<noteq> []"
  shows "np_min xs = Inr (Min (set xs))"
proof -
  from assms obtain a list where xs: "xs = a # list" by (cases xs) auto
  show ?thesis unfolding xs using Min.set_eq_fold[of a list] by simp
qed

lemma site_protein_pure:
  assumes "reference \<noteq> []"
  shows "site_protein reference bx r atm =
     Inr (oa_resid atm \<in> set (map at_resid reference)
            \<or> Min ((\<lambda>ref. pair_distance bx (oa_coordinates atm) (at_position ref)) ` set reference) \<le> r,
          oa_resid atm \<notin> set (map at_resid reference)
            \<and> Min ((\<lambda>ref. pair_distance bx (oa_coordinates atm) (at_position ref)) ` set reference) \<le> r)"
proof -
  have "distance_array bx [oa_coordinates atm] (map at_position reference) \<noteq> []"
    using assms by (simp add: distance_array_def)
  moreover have "set (distance_array bx [oa_coordinates atm] (map at_position reference)) =
     (\<lambda>ref. pair_distance bx (oa_coordinates atm) (at_position ref)) ` set reference"
    by (auto simp: distance_array_def)
  ultimately show ?thesis
    by (simp add: site_protein_def np_min_Min)
qed

lemma site_water_pure:
  assumes "reference \<noteq> []"
  shows "site_water reference r mol =
     Inr (Min ((\<lambda>(p, ref). euclid p (at_position ref)) ` (set (water_points mol) \<times> set reference)) \<le> r)"
proof -
  let ?d = "distance_array None (water_points mol) (map at_position reference)"
  have "?d \<noteq> []"
    using assms by (simp add: distance_array_def water_points_def)
  moreover have "set ?d = (\<lambda>(p, ref). euclid p (at_position ref)) ` (set (water_points mol) \<times> set reference)"
    by (auto simp: distance_array_def pair_distance_def image_iff)
  ultimately show ?thesis
    by (simp add: site_water_def np_min_Min water_points_def)
qed

text \<open>
  What \<open>select_active_site\<close> returns for a reference of at least one atom. A protein
  atom is in the active set exactly when its residue id is one of the reference's or its
  least distance to the reference atoms, as \<open>distance_array\<close> computes it with the box
  of the call, is at most the radius. A water molecule is in the active set exactly when
  the least Euclidean distance of its three atoms to the reference atoms is at most the
  radius: the box of the call does not reach the distances of the waters.
\<close>

lemma select_active_site_returns:
  assumes "reference \<noteq> []"
  shows "\<exists>self1 site protein_active water_active.
     select_active_site self reference bx r = Inr (self1, site, protein_active, water_active)
     \<and> active_site self1 = Some site
     \<and> (\<forall>atm\<in>set (protein_atoms self).
           Atom atm \<in> set site \<longleftrightarrow>
             oa_resid atm \<in> set (map at_resid reference)
             \<or> Min ((\<lambda>ref. pair_distance bx (oa_coordinates atm) (at_position ref)) ` set reference) \<le> r)
     \<and> (\<forall>mol\<in>set (water_molecules self).
           Molecule mol \<in> set site \<longleftrightarrow>
             Min ((\<lambda>(p, ref). euclid p (at_position ref)) ` (set (water_points mol) \<times> set reference)) \<le> r)"
proof -
  let ?gp = "\<lambda>atm. (oa_resid atm \<in> set (map at_resid reference)
            \<or> Min ((\<lambda>ref. pair_distance bx (oa_coordinates atm) (at_position ref)) ` set reference) \<le> r,
          oa_resid atm \<notin> set (map at_resid reference)
            \<and> Min ((\<lambda>ref. pair_distance bx (oa_coordinates atm) (at_position ref)) ` set reference) \<le> r)"
  let ?gw = "\<lambda>mol. Min ((\<lambda>(p, ref). euclid p (at_position ref)) ` (set (water_points mol) \<times> set reference)) \<le> r"
  have p: "mapE (site_protein reference bx r) (protein_atoms self) = Inr (map ?gp (protein_atoms self))"
    by (rule mapE_pure) (rule site_protein_pure[OF assms])
  have w: "mapE (site_water reference r) (water_molecules self) = Inr (map ?gw (water_molecules self))"
    by (rule mapE_pure) (rule site_water_pure[OF assms])
  have fz: "map fst (filter snd (zip xs (map g xs))) = filter g xs" for xs :: "'a list" and g
    by (induction xs) auto
  let ?site = "map Atom (filter (\<lambda>a. fst (?gp a)) (protein_atoms self)) @ map Molecule (filter ?gw (water_molecules self))"
  have "select_active_site self reference bx r =
     Inr (self\<lparr>active_site := Some ?site\<rparr>, ?site,
          filter (\<lambda>a. snd (?gp a)) (protein_atoms self), filter ?gw (water_molecules self))"
    unfolding select_active_site_def p w
    by (simp add: Let_def fz filter_zip_map[where P=fst] filter_zip_map[where P=snd])
  moreover have "Atom atm \<in> set ?site \<longleftrightarrow> atm \<in> set (protein_atoms self) \<and> fst (?gp atm)" for atm
    by auto
  moreover have "Molecule mol \<in> set ?site \<longleftrightarrow> mol \<in> set (water_molecules self) \<and> ?gw mol" for mol
    by auto
  ultimately show ?thesis by simp
qed

text \<open>
  C5. The claim: a protein atom outside the reference is included iff its minimum distance
  to the reference atoms, the minimum-image distance when a box is given, is at most the
  radius, and a water molecule iff the minimum distance of its three atoms to the reference
  atoms is at most the radius. In a cubic cell of edge 10, with the reference atom at the
  origin and the radius 1, a water oxygen and a protein nitrogen both sit at
  \<open>(19/2, 0, 0)\<close>, half a unit from the reference through the periodic image. The protein
  atom is selected and the water is not: the call of \<open>distance_array\<close> for the waters
  leaves out the \<open>box\<close> argument that the call for the protein atoms passes.
\<close>

theorem select_active_site_water_ignores_box:
  "\<exists>self atm mol self1.
     water_and_atom_across = Some self
     \<and> protein_atoms self = [atm] \<and> water_molecules self = [mol]
     \<and> oa_coordinates atm = (19 / 2, 0, 0) \<and> O_coordinates mol = (19 / 2, 0, 0)
     \<and> oa_resid atm \<noteq> 50
     \<and> pair_distance (Some (10, 10, 10)) (O_coordinates mol) (0, 0, 0) = 1 / 2
     \<and> select_active_site self [mk_atom 100 (0, 0, 0) 50] (Some (10, 10, 10)) 1
           = Inr (self1, [Atom atm], [atm], [])"
  by (simp add: water_and_atom_across_def net_defs sel_defs kd_defs mic_defs)

subsection \<open>The loops of find\_directed\_connections\<close>

lemma mapE_Inr_iff: "mapE f xs = Inr ys \<longleftrightarrow> list_all2 (\<lambda>x y. f x = Inr y) xs ys"
proof (induction xs arbitrary: ys)
  case Nil
  show ?case by auto
next
  case (Cons a xs)
  have "mapE f (a # xs) = Inr ys \<longleftrightarrow>
        (\<exists>y ys'. f a = Inr y \<and> mapE f xs = Inr ys' \<and> ys = y # ys')"
    by (auto split: sum.splits)
  then show ?case by (auto simp: Cons.IH list_all2_Cons1)
qed

lemma mapE_Inr_total:
  "(\<exists>ys. mapE f xs = Inr ys) \<longleftrightarrow> (\<forall>x\<in>set xs. \<exists>y. f x = Inr y)"
  by (induction xs) (auto split: sum.splits)

lemma mapE_Inr_set:
  assumes "mapE f xs = Inr ys"
  shows "set ys = {y. \<exists>x\<in>set xs. f x = Inr y}"
proof -
  from assms have l: "list_all2 (\<lambda>x y. f x = Inr y) xs ys" by (simp add: mapE_Inr_iff)
  show ?thesis
  proof (intro set_eqI iffI)
    fix y assume "y \<in> set ys"
    then obtain i where "i < length ys" "ys ! i = y" by (auto simp: in_set_conv_nth)
    with l have "f (xs ! i) = Inr y" "i < length xs"
      by (auto simp: list_all2_conv_all_nth)
    then show "y \<in> {y. \<exists>x\<in>set xs. f x = Inr y}" by auto
  next
    fix y assume "y \<in> {y. \<exists>x\<in>set xs. f x = Inr y}"
    then obtain x where "x \<in> set xs" "f x = Inr y" by auto
    then obtain i where "i < length xs" "xs ! i = x" by (auto simp: in_set_conv_nth)
    with l \<open>f x = Inr y\<close> have "ys ! i = y" "i < length ys"
      by (auto simp: list_all2_conv_all_nth)
    then show "y \<in> set ys" by auto
  qed
qed

lemma loopE_total:
  "(\<exists>cs. loopE body rows = Inr cs) \<longleftrightarrow> (\<forall>(i, s)\<in>slots rows. \<exists>c. body i s = Inr c)"
proof -
  let ?inner = "\<lambda>(index_near, row). case mapE (body index_near) row of Inl e \<Rightarrow> Inl e | Inr cs \<Rightarrow> Inr (concat cs)"
  have "(\<exists>cs. loopE body rows = Inr cs) \<longleftrightarrow> (\<exists>css. mapE ?inner (List.enumerate 0 rows) = Inr css)"
    by (auto simp: loopE_def split: sum.splits)
  also have "\<dots> \<longleftrightarrow> (\<forall>p\<in>set (List.enumerate 0 rows). \<exists>y. ?inner p = Inr y)"
    by (rule mapE_Inr_total)
  also have "\<dots> \<longleftrightarrow> (\<forall>p\<in>set (List.enumerate 0 rows). \<exists>ys. mapE (body (fst p)) (snd p) = Inr ys)"
  proof -
    have "(\<exists>y. ?inner p = Inr y) \<longleftrightarrow> (\<exists>ys. mapE (body (fst p)) (snd p) = Inr ys)" for p
      by (cases "mapE (body (fst p)) (snd p)") (auto simp: split_def)
    then show ?thesis by simp
  qed
  also have "\<dots> \<longleftrightarrow> (\<forall>p\<in>set (List.enumerate 0 rows). \<forall>s\<in>set (snd p). \<exists>c. body (fst p) s = Inr c)"
    by (simp add: mapE_Inr_total)
  also have "\<dots> \<longleftrightarrow> (\<forall>(i, s)\<in>slots rows. \<exists>c. body i s = Inr c)"
  proof -
    have "p \<in> set (List.enumerate 0 rows) \<longleftrightarrow> fst p < length rows \<and> snd p = rows ! fst p" for p
      by (auto simp: in_set_enumerate_eq)
    then have en: "set (List.enumerate 0 rows) = {p. fst p < length rows \<and> snd p = rows ! fst p}"
      by blast
    show ?thesis
    proof
      assume h: "\<forall>p\<in>set (List.enumerate 0 rows). \<forall>s\<in>set (snd p). \<exists>c. body (fst p) s = Inr c"
      show "\<forall>(i, s)\<in>slots rows. \<exists>c. body i s = Inr c"
      proof (clarify)
        fix i s assume "(i, s) \<in> slots rows"
        then have "(i, rows ! i) \<in> set (List.enumerate 0 rows)" "s \<in> set (rows ! i)"
          by (simp_all add: slots_def en)
        with h show "\<exists>c. body i s = Inr c" by fastforce
      qed
    next
      assume h: "\<forall>(i, s)\<in>slots rows. \<exists>c. body i s = Inr c"
      show "\<forall>p\<in>set (List.enumerate 0 rows). \<forall>s\<in>set (snd p). \<exists>c. body (fst p) s = Inr c"
      proof (intro ballI)
        fix p s assume "p \<in> set (List.enumerate 0 rows)" "s \<in> set (snd p)"
        then have "(fst p, s) \<in> slots rows" by (simp add: slots_def en)
        with h show "\<exists>c. body (fst p) s = Inr c" by blast
      qed
    qed
  qed
  finally show ?thesis .
qed

lemma loopE_set:
  assumes "loopE body rows = Inr cs"
  shows "set cs = {e. \<exists>(i, s)\<in>slots rows. \<exists>c. body i s = Inr c \<and> e \<in> set c}"
proof -
  let ?inner = "\<lambda>(index_near, row). case mapE (body index_near) row of Inl e \<Rightarrow> Inl e | Inr cs \<Rightarrow> Inr (concat cs)"
  from assms obtain css where css: "mapE ?inner (List.enumerate 0 rows) = Inr css" and cs: "cs = concat css"
    by (auto simp: loopE_def split: sum.splits)
  have inner: "?inner p = Inr y \<longleftrightarrow> (\<exists>ys. mapE (body (fst p)) (snd p) = Inr ys \<and> y = concat ys)" for p y
    by (auto simp: split_def split: sum.splits)
  have "set cs = (\<Union>y\<in>set css. set y)" by (simp add: cs)
  also have "\<dots> = (\<Union>y\<in>{y. \<exists>p\<in>set (List.enumerate 0 rows). ?inner p = Inr y}. set y)"
    using mapE_Inr_set[OF css] by simp
  also have "\<dots> = {e. \<exists>(i, s)\<in>slots rows. \<exists>c. body i s = Inr c \<and> e \<in> set c}"
  proof (intro set_eqI iffI)
    fix e assume "e \<in> (\<Union>y\<in>{y. \<exists>p\<in>set (List.enumerate 0 rows). ?inner p = Inr y}. set y)"
    then obtain p ys where p: "p \<in> set (List.enumerate 0 rows)"
      and ys: "mapE (body (fst p)) (snd p) = Inr ys" and e: "e \<in> set (concat ys)"
      by (auto simp: inner)
    from e obtain c where c: "c \<in> set ys" "e \<in> set c" by auto
    with mapE_Inr_set[OF ys] obtain s where "s \<in> set (snd p)" "body (fst p) s = Inr c" by auto
    moreover from p have "fst p < length rows" "snd p = rows ! fst p"
      by (simp_all add: in_set_enumerate_eq)
    ultimately have "(fst p, s) \<in> slots rows" "body (fst p) s = Inr c"
      by (simp_all add: slots_def)
    with c(2) show "e \<in> {e. \<exists>(i, s)\<in>slots rows. \<exists>c. body i s = Inr c \<and> e \<in> set c}"
      by blast
  next
    fix e assume "e \<in> {e. \<exists>(i, s)\<in>slots rows. \<exists>c. body i s = Inr c \<and> e \<in> set c}"
    then obtain i s c where i: "i < length rows" "s \<in> set (rows ! i)" and c: "body i s = Inr c" "e \<in> set c"
      by (auto simp: slots_def)
    have p: "(i, rows ! i) \<in> set (List.enumerate 0 rows)" using i by (simp add: in_set_enumerate_eq)
    from css have "\<exists>y. ?inner (i, rows ! i) = Inr y"
      using mapE_Inr_total[of ?inner "List.enumerate 0 rows"] p by blast
    then obtain ys where ys: "mapE (body i) (rows ! i) = Inr ys" "?inner (i, rows ! i) = Inr (concat ys)"
      by (auto split: sum.splits)
    with mapE_Inr_set[OF ys(1)] i c have "c \<in> set ys" by auto
    with c have "e \<in> set (concat ys)" by auto
    with p ys(2) show "e \<in> (\<Union>y\<in>{y. \<exists>p\<in>set (List.enumerate 0 rows). ?inner p = Inr y}. set y)"
      by blast
  qed
  finally show ?thesis .
qed

lemma water_block_eq:
  "water_block self c aso ang waters =
   loopE (watO_slot self c aso ang waters)
     (map (query_row (map O_coordinates waters) 5 c) (water_H_coords waters))"
  by (simp add: water_block_def cKDTree_def reshape_m1_3_def np_array_def)

lemma protein_blocks_eq:
  "protein_blocks self c aso ang waters protein =
   (case loopE (protH_slot self c aso ang waters (filter is_protH protein))
           (map (query_row (map oa_coordinates (filter is_protH protein)) 10 c) (map O_coordinates waters)) of
      Inl e \<Rightarrow> Inl e
    | Inr csH \<Rightarrow>
        (case loopE (protO_slot self c aso ang waters (filter is_protO protein))
                (map (query_row (map oa_coordinates (filter is_protO protein)) 10 c) (water_H_coords waters)) of
           Inl e \<Rightarrow> Inl e
         | Inr csO \<Rightarrow> Inr (csH @ csO)))"
  by (simp add: protein_blocks_def cKDTree_def reshape_m1_3_def np_array_def Let_def
           split: sum.splits)

lemma protH_slot_angle: "protH_slot self c aso (Some a) waters protH i s = Inr x \<Longrightarrow> x = []"
  by (auto simp: protH_slot_def Let_def split: prod.splits if_splits list.splits)

lemma protO_slot_angle: "protO_slot self c aso (Some a) waters protO i s = Inr x \<Longrightarrow> x = []"
  by (auto simp: protO_slot_def Let_def split: prod.splits if_splits)

lemma protH_slot_None: "\<exists>x. protH_slot self c aso None waters protH i s = Inr x"
  by (auto simp: protH_slot_def Let_def split: prod.splits)

lemma protO_slot_None: "\<exists>x. protO_slot self c aso None waters protO i s = Inr x"
  by (auto simp: protO_slot_def Let_def split: prod.splits)

lemma watO_slot_None: "\<exists>x. watO_slot self c aso None waters i s = Inr x"
  by (auto simp: watO_slot_def Let_def split: prod.splits)

lemma watO_slot_None_eq:
  "watO_slot self c aso None waters i s =
   Inr (if le_cutoff (fst s) c \<and> water_H_indices waters ! i < O_index (waters ! snd s)
        then [ww_directed_conn self aso waters i (snd s)] else [])"
  by (auto simp: watO_slot_def ww_directed_conn_def Let_def split: prod.splits)

lemma watO_slot_angle:
  assumes "watO_slot self c aso (Some a) waters i s = Inr x"
  shows "x = (if le_cutoff (fst s) c \<and> water_H_indices waters ! i < O_index (waters ! snd s)
                 \<and> angle_ge (ww_angle self waters i (snd s)) a
              then [ww_directed_conn self aso waters i (snd s)] else [])"
  using assms
  by (auto simp: watO_slot_def ww_directed_conn_def ww_angle_def Let_def
           split: prod.splits if_splits list.splits)

lemma loopE_nil:
  assumes "loopE body rows = Inr cs" "\<And>i s x. body i s = Inr x \<Longrightarrow> x = []"
  shows "cs = []"
proof -
  have "set cs = {}" unfolding loopE_set[OF assms(1)] using assms(2) by fastforce
  then show ?thesis by simp
qed

lemma protein_blocks_angle:
  assumes "protein_blocks self c aso (Some a) waters protein = Inr cs"
  shows "cs = []"
proof -
  from assms obtain csH csO where
    H: "loopE (protH_slot self c aso (Some a) waters (filter is_protH protein))
           (map (query_row (map oa_coordinates (filter is_protH protein)) 10 c) (map O_coordinates waters)) = Inr csH"
    and O: "loopE (protO_slot self c aso (Some a) waters (filter is_protO protein))
                (map (query_row (map oa_coordinates (filter is_protO protein)) 10 c) (water_H_coords waters)) = Inr csO"
    and cs: "cs = csH @ csO"
    by (auto simp: protein_blocks_eq split: sum.splits)
  from H have "csH = []" by (rule loopE_nil) (rule protH_slot_angle)
  moreover from O have "csO = []" by (rule loopE_nil) (rule protO_slot_angle)
  ultimately show ?thesis using cs by simp
qed

lemma protein_blocks_None: "\<exists>cs. protein_blocks self c aso None waters protein = Inr cs"
proof -
  obtain csH where "loopE (protH_slot self c aso None waters (filter is_protH protein))
           (map (query_row (map oa_coordinates (filter is_protH protein)) 10 c) (map O_coordinates waters)) = Inr csH"
    using loopE_total[THEN iffD2] protH_slot_None by (metis (mono_tags, lifting) case_prodI2)
  moreover obtain csO where "loopE (protO_slot self c aso None waters (filter is_protO protein))
                (map (query_row (map oa_coordinates (filter is_protO protein)) 10 c) (water_H_coords waters)) = Inr csO"
    using loopE_total[THEN iffD2] protO_slot_None by (metis (mono_tags, lifting) case_prodI2)
  ultimately show ?thesis by (simp add: protein_blocks_eq)
qed

lemma slots_query:
  assumes "(i, s) \<in> slots (map (query_row pts k c) qs)" "le_cutoff (fst s) c"
  shows "i < length qs \<and> snd s < length pts \<and> euclid (qs ! i) (pts ! snd s) < c"
proof -
  from assms(1) have i: "i < length qs" and s: "s \<in> set (query_row pts k c (qs ! i))"
    by (auto simp: slots_def)
  from assms(2) obtain d where "fst s = Some d" by (auto simp: le_cutoff_iff)
  then have "(Some d, snd s) \<in> set (query_row pts k c (qs ! i))" using s by (metis prod.collapse)
  from query_row_Some[OF this] i show ?thesis by simp
qed


lemmas ang_defs = angle_degrees_def np_linalg_norm_def ww_angle_def


text \<open>
  With an angle threshold both protein loops of the method raise at the first contact
  closer than the cutoff: the loop over the protein hydrogens reads \<open>water1\<close> before
  any assignment to it, and the loop over the protein acceptors takes the minimum of an
  empty list. Two waters with a protein nitrogen and a protein hydrogen in contact:
\<close>

lemma protein_loops_raise_under_threshold:
  "\<exists>self ds. waters_and_atoms = Some self
     \<and> find_directed_connections self (5 / 2) None None False False (Some 150) = Inl UnboundLocalError
     \<and> find_directed_connections self (5 / 2) None None False False None = Inr ds
     \<and> has_edge ds ''WAT-PROT'' 8 ''HA'' 1"
  by (simp add: waters_and_atoms_def net_defs kd_defs fc_defs dir_defs has_edge_def)

text \<open>
  C3 as the spec states it: the edges found without an angle criterion are a strict
  superset of the edges found with any nonzero threshold. On two waters whose hydrogen bond
  is straight (180 degrees) the threshold 150 keeps the one edge there is: the two edge sets
  are equal.
\<close>

theorem angle_criteria_not_strict_counterexample:
  "\<exists>es es0.
     find_directed_connections two_waters (5 / 2) None None False True (Some 150) = Inr es
     \<and> find_directed_connections two_waters (5 / 2) None None False True None = Inr es0
     \<and> es0 \<noteq> []
     \<and> \<not> set es \<subset> set es0"
  by (simp add: net_defs kd_defs fc_defs dir_defs ang_defs)


text \<open>
  C3, amended. Whenever \<open>find_directed_connections\<close> returns with an angle threshold,
  every water-water edge it returns joins a hydrogen and an oxygen closer than the cutoff
  whose computed angle (at the hydrogen, between the acceptor and the donor oxygen) is at
  least the threshold, and the call without a threshold returns as well, with a superset
  of these edges, not necessarily a strict one.
\<close>

theorem angle_criteria_filters:
  assumes R: "find_directed_connections self c water_active protein_active active_site_only
                water_only (Some a) = Inr es"
    and S: "scope active_site_only water_active (water_molecules self) = Some waters"
  shows "(\<forall>e\<in>set es. connection_type e = ''WAT-WAT'' \<longrightarrow> (\<exists>h ref.
            h < length (water_H_coords waters) \<and> ref < length waters
            \<and> euclid (water_H_coords waters ! h) (O_coordinates (waters ! ref)) < c
            \<and> e = ww_directed_conn self active_site_only waters h ref
            \<and> angle_ge (ww_angle self waters h ref) a))
       \<and> (\<exists>es0. find_directed_connections self c water_active protein_active active_site_only
                   water_only None = Inr es0
                 \<and> set es \<subseteq> set es0)"
proof -
  let ?rows = "map (query_row (map O_coordinates waters) 5 c) (water_H_coords waters)"
  from R S obtain cs ws where
    cs: "water_only \<and> cs = [] \<or> (\<exists>protein. protein_blocks self c active_site_only (Some a) waters protein = Inr cs)"
    and ws: "water_block self c active_site_only (Some a) waters = Inr ws"
    and es: "es = cs @ ws"
    by (auto simp: find_directed_connections_def split: option.splits sum.splits if_splits)
  from cs have "cs = []" by (auto dest: protein_blocks_angle)
  with es have es_ws: "es = ws" by simp
  from ws have L: "loopE (watO_slot self c active_site_only (Some a) waters) ?rows = Inr ws"
    by (simp add: water_block_eq)
  obtain ws0 where L0: "loopE (watO_slot self c active_site_only None waters) ?rows = Inr ws0"
    using loopE_total[THEN iffD2] watO_slot_None by (metis (mono_tags, lifting) case_prodI2)
  have pr: "\<exists>cs0. (if water_only then Inr []
                 else (case scope active_site_only protein_active (protein_atoms self) of
                         None \<Rightarrow> Inl TypeError
                       | Some protein \<Rightarrow>
                           protein_blocks self c active_site_only None waters protein)) = Inr cs0"
  proof (cases water_only)
    case True
    then show ?thesis by simp
  next
    case False
    with R S obtain protein where "scope active_site_only protein_active (protein_atoms self) = Some protein"
      by (auto simp: find_directed_connections_def split: option.splits sum.splits if_splits)
    with False protein_blocks_None[of self c active_site_only waters protein] show ?thesis by auto
  qed
  then obtain cs0 where cs0: "(if water_only then Inr []
                 else (case scope active_site_only protein_active (protein_atoms self) of
                         None \<Rightarrow> Inl TypeError
                       | Some protein \<Rightarrow>
                           protein_blocks self c active_site_only None waters protein)) = Inr cs0" ..
  have F0: "find_directed_connections self c water_active protein_active active_site_only
                   water_only None = Inr (cs0 @ ws0)"
    unfolding find_directed_connections_def S using cs0 L0 by (simp add: water_block_eq)
  have key: "\<exists>h ref. h < length (water_H_coords waters) \<and> ref < length waters
            \<and> euclid (water_H_coords waters ! h) (O_coordinates (waters ! ref)) < c
            \<and> e = ww_directed_conn self active_site_only waters h ref
            \<and> angle_ge (ww_angle self waters h ref) a
            \<and> e \<in> set ws0" if e: "e \<in> set ws" for e
  proof -
    from e loopE_set[OF L] obtain i s x where sl: "(i, s) \<in> slots ?rows"
      and x: "watO_slot self c active_site_only (Some a) waters i s = Inr x" and ex: "e \<in> set x"
      by auto
    from watO_slot_angle[OF x] ex have cond: "le_cutoff (fst s) c"
      "water_H_indices waters ! i < O_index (waters ! snd s)"
      "angle_ge (ww_angle self waters i (snd s)) a"
      and e_eq: "e = ww_directed_conn self active_site_only waters i (snd s)"
      by (auto split: if_splits)
    from slots_query[OF sl cond(1)] have b: "i < length (water_H_coords waters)"
      "snd s < length waters"
      "euclid (water_H_coords waters ! i) (O_coordinates (waters ! snd s)) < c"
      by auto
    have "watO_slot self c active_site_only None waters i s = Inr [e]"
      using cond e_eq by (simp add: watO_slot_None_eq)
    with sl loopE_set[OF L0] have "e \<in> set ws0" by fastforce
    with b cond e_eq show ?thesis by blast
  qed
  have "\<forall>e\<in>set es. \<exists>h ref.
            h < length (water_H_coords waters) \<and> ref < length waters
            \<and> euclid (water_H_coords waters ! h) (O_coordinates (waters ! ref)) < c
            \<and> e = ww_directed_conn self active_site_only waters h ref
            \<and> angle_ge (ww_angle self waters h ref) a"
    unfolding es_ws using key by blast
  moreover have "set es \<subseteq> set (cs0 @ ws0)"
    unfolding es_ws using key by auto
  ultimately show ?thesis using F0 by blast
qed


theorem angle_criteria_filters_witness:
  "find_directed_connections two_waters (5 / 2) None None False True (Some 150) =
     Inr [\<lparr>index1 = 1, index2 = 4, atom_name = ''H1'', connection_type = ''WAT-WAT'',
            site_status = ''None'', classification = None\<rparr>]
   \<and> scope False None (water_molecules two_waters) = Some (water_molecules two_waters)
   \<and> ww_angle two_waters (water_molecules two_waters) 0 1 = Some 180
   \<and> find_directed_connections two_waters (5 / 2) None None False True None =
     Inr [\<lparr>index1 = 1, index2 = 4, atom_name = ''H1'', connection_type = ''WAT-WAT'',
            site_status = ''None'', classification = None\<rparr>]"
proof -
  have r: "find_directed_connections two_waters (5 / 2) None None False True (Some 150) =
     Inr [\<lparr>index1 = 1, index2 = 4, atom_name = ''H1'', connection_type = ''WAT-WAT'',
            site_status = ''None'', classification = None\<rparr>]"
    by (simp add: net_defs kd_defs fc_defs dir_defs ang_defs)
  have s: "scope False None (water_molecules two_waters) = Some (water_molecules two_waters)"
    by (simp add: scope_def)
  have g: "ww_angle two_waters (water_molecules two_waters) 0 1 = Some 180"
    by (simp add: net_defs kd_defs dir_defs ang_defs)
  from angle_criteria_filters[OF r s] obtain es0 where
    e0: "find_directed_connections two_waters (5 / 2) None None False True None = Inr es0"
    and sub: "set [\<lparr>index1 = 1, index2 = 4, atom_name = ''H1'', connection_type = ''WAT-WAT'',
            site_status = ''None'', classification = None\<rparr>] \<subseteq> set es0"
    by blast
  have "find_directed_connections two_waters (5 / 2) None None False True None =
     Inr [\<lparr>index1 = 1, index2 = 4, atom_name = ''H1'', connection_type = ''WAT-WAT'',
            site_status = ''None'', classification = None\<rparr>]"
    by (simp add: net_defs kd_defs fc_defs dir_defs)
  with r s g e0 show ?thesis by simp
qed

subsection \<open>The cutoff in both finders\<close>

lemma length_hits_crowd: "length (hits pts q c) = crowd pts c q"
proof -
  have "length (hits pts q c) =
        length (filter (\<lambda>(d, j). d < c) (map (\<lambda>j. (euclid q (pts ! j), j)) [0..<length pts]))"
    by (simp add: hits_def)
  also have "\<dots> = length (filter (\<lambda>j. euclid q (pts ! j) < c) [0..<length pts])"
    by (simp add: filter_map comp_def)
  also have "\<dots> = length (filter (\<lambda>p. euclid q p < c) (map (\<lambda>j. pts ! j) [0..<length pts]))"
    by (simp add: filter_map comp_def)
  also have "\<dots> = crowd pts c q"
    by (simp add: crowd_def map_nth)
  finally show ?thesis .
qed

lemma has_edge_iff:
  "has_edge cs ty a nm b \<longleftrightarrow>
   (\<exists>e\<in>set cs. connection_type e = ty \<and> index1 e = a \<and> atom_name e = nm \<and> index2 e = b)"
  by (simp add: has_edge_def list_ex_iff)













lemma find_directed_connections_Inr:
  assumes "find_directed_connections self c wa pa aso wo ang = Inr ds"
    and "scope aso wa (water_molecules self) = Some waters"
  shows "\<exists>csH csO ws. ds = csH @ csO @ ws
    \<and> loopE (watO_slot self c aso ang waters)
           (map (query_row (map O_coordinates waters) 5 c) (water_H_coords waters)) = Inr ws
    \<and> (wo \<longrightarrow> csH = [] \<and> csO = [])
    \<and> (\<not> wo \<longrightarrow> (\<exists>protein. scope aso pa (protein_atoms self) = Some protein
          \<and> loopE (protH_slot self c aso ang waters (filter is_protH protein))
               (map (query_row (map oa_coordinates (filter is_protH protein)) 10 c)
                    (map O_coordinates waters)) = Inr csH
          \<and> loopE (protO_slot self c aso ang waters (filter is_protO protein))
               (map (query_row (map oa_coordinates (filter is_protO protein)) 10 c)
                    (water_H_coords waters)) = Inr csO))"
proof (cases wo)
  case True
  with assms have "\<exists>ws. ds = [] @ [] @ ws \<and> loopE (watO_slot self c aso ang waters)
           (map (query_row (map O_coordinates waters) 5 c) (water_H_coords waters)) = Inr ws"
    by (auto simp: find_directed_connections_def water_block_eq split: sum.splits)
  with True show ?thesis by blast
next
  case False
  with assms obtain protein cs ws where p: "scope aso pa (protein_atoms self) = Some protein"
    and cs: "protein_blocks self c aso ang waters protein = Inr cs"
    and ws: "loopE (watO_slot self c aso ang waters)
           (map (query_row (map O_coordinates waters) 5 c) (water_H_coords waters)) = Inr ws"
    and ds: "ds = cs @ ws"
    by (auto simp: find_directed_connections_def water_block_eq split: sum.splits option.splits)
  from cs obtain csH csO where
    "loopE (protH_slot self c aso ang waters (filter is_protH protein))
               (map (query_row (map oa_coordinates (filter is_protH protein)) 10 c)
                    (map O_coordinates waters)) = Inr csH"
    "loopE (protO_slot self c aso ang waters (filter is_protO protein))
               (map (query_row (map oa_coordinates (filter is_protO protein)) 10 c)
                    (water_H_coords waters)) = Inr csO"
    "cs = csH @ csO"
    by (auto simp: protein_blocks_eq split: sum.splits)
  with False p ws ds show ?thesis by auto
qed








lemma loopE_contains:
  assumes "loopE body rows = Inr cs" "(i, s) \<in> slots rows" "body i s = Inr x"
  shows "set x \<subseteq> set cs"
  using assms loopE_set[OF assms(1)] by fastforce

lemma slot_complete:
  assumes "crowd pts c (qs ! i) \<le> k" "i < length qs" "j < length pts" "euclid (qs ! i) (pts ! j) < c"
  shows "(i, (Some (euclid (qs ! i) (pts ! j)), j)) \<in> slots (map (query_row pts k c) qs)"
  using assms query_row_complete[of pts "qs ! i" c k j]
  by (simp add: slots_def length_hits_crowd)



lemma ww_directed_conn_simps:
  "connection_type (ww_directed_conn self aso waters h r) = ''WAT-WAT''"
  "index1 (ww_directed_conn self aso waters h r) = water_H_indices waters ! h"
  "index2 (ww_directed_conn self aso waters h r) = O_index (waters ! r)"
  "atom_name (ww_directed_conn self aso waters h r) = water_H_names waters ! h"
  by (simp_all add: ww_directed_conn_def directed_conn_def)


lemma has_edgeI:
  "e \<in> set cs \<Longrightarrow> connection_type e = ty \<Longrightarrow> index1 e = a \<Longrightarrow> atom_name e = nm \<Longrightarrow> index2 e = b
   \<Longrightarrow> has_edge cs ty a nm b"
  by (auto simp: has_edge_iff)




lemma directed_near_ww:
  assumes R: "find_directed_connections self c wa pa aso wo None = Inr ds"
    and W: "scope aso wa (water_molecules self) = Some waters"
    and h: "h < length (water_H_coords waters)" and r: "r < length waters"
    and near: "euclid (water_H_coords waters ! h) (O_coordinates (waters ! r)) < c"
    and lt: "water_H_indices waters ! h < O_index (waters ! r)"
    and few: "crowd (map O_coordinates waters) c (water_H_coords waters ! h) \<le> 5"
  shows "has_edge ds ''WAT-WAT'' (water_H_indices waters ! h) (water_H_names waters ! h)
             (O_index (waters ! r))"
proof -
  let ?rows = "map (query_row (map O_coordinates waters) 5 c) (water_H_coords waters)"
  from find_directed_connections_Inr[OF R W] obtain csH csO ws where ds: "ds = csH @ csO @ ws"
    and ws: "loopE (watO_slot self c aso None waters) ?rows = Inr ws"
    by blast
  let ?s = "(Some (euclid (water_H_coords waters ! h) (map O_coordinates waters ! r)), r)"
  have sl: "(h, ?s) \<in> slots ?rows"
    by (rule slot_complete) (use few h r near in simp_all)
  have "watO_slot self c aso None waters h ?s = Inr [ww_directed_conn self aso waters h r]"
    using near lt r by (simp add: watO_slot_None_eq)
  from loopE_contains[OF ws sl this] ds have "ww_directed_conn self aso waters h r \<in> set ds"
    by simp
  then show ?thesis by (rule has_edgeI) (simp_all add: ww_directed_conn_simps)
qed







text \<open>
  The water-water loop of the directed finder keeps a hydrogen bond only when the oxygen
  index of the donor is the lower one, a test its two protein loops do not make. The same
  two waters, numbered the other way round, lose their hydrogen bond.
\<close>

lemma directed_finder_drops_higher_donor:
  "find_directed_connections two_waters (5 / 2) None None False True None =
     Inr [\<lparr>index1 = 1, index2 = 4, atom_name = ''H1'', connection_type = ''WAT-WAT'',
            site_status = ''None'', classification = None\<rparr>]
   \<and> map O_coordinates (water_molecules two_waters_renumbered) = [(0, 0, 0), (3, 0, 0)]
   \<and> map O_index (water_molecules two_waters_renumbered) = [4, 1]
   \<and> find_directed_connections two_waters_renumbered (5 / 2) None None False True None = Inr []"
  by (simp add: net_defs kd_defs fc_defs dir_defs)




end
